theory Spec2Isabelle
  imports Complex_Main
begin

section \<open>Documents\<close>

text \<open>
  The collections the lecture and wishlist controllers read and write. An ObjectId is
  modelled by the string \<open>toString()\<close> gives it: its 24 hex digits, in lower case; two
  ids are the same when these strings are. Only the fields the controllers touch are
  kept. The \<open>_id\<close> of a document is the primary key of its collection, so at most one
  document of a collection carries a given id.

  An id arrives in a request as a string, in a URL parameter or a body, and a call of a
  model casts it to an ObjectId; the cast reads hex digits of either case, so
  \<open>objectId\<close> lowers the letters \<open>A\<close> to \<open>F\<close>. A string that does not cast makes the
  call reject, which is one of the ways a call can fail (see \<open>faults\<close> below). The
  lecture controller hands every id of a request to such a call and never looks at its
  spelling, so there an id of the request stands for the id it casts to. The wishlist
  controller also compares the string itself with stored ids (\<open>includes\<close>, \<open>filter\<close>),
  so there the cast is written out.
\<close>

type_synonym oid = string

definition hex_lower :: "char \<Rightarrow> char" where
  "hex_lower c =
     (if c = CHR ''A'' then CHR ''a''
      else if c = CHR ''B'' then CHR ''b''
      else if c = CHR ''C'' then CHR ''c''
      else if c = CHR ''D'' then CHR ''d''
      else if c = CHR ''E'' then CHR ''e''
      else if c = CHR ''F'' then CHR ''f''
      else c)"

definition objectId :: "string \<Rightarrow> oid" where
  "objectId s = map hex_lower s"

record user =
  user_id :: oid
  user_role :: string

record course =
  course_id :: oid
  course_instructor :: oid
  course_published :: bool

record section_doc =
  section_id :: oid
  section_course :: oid

record lecture =
  lecture_id :: oid
  lecture_title :: string
  lecture_section :: oid
  lecture_videoUrl :: "string option"
  lecture_duration :: "rat option"
  lecture_isPreview :: bool
  lecture_order :: int

record enrollment =
  enrollment_user :: oid
  enrollment_course :: oid

record wishlist =
  wishlist_id :: oid
  wishlist_user :: oid
  wishlist_courses :: "oid list"

section \<open>Request bodies and the validation schemas\<close>

text \<open>
  A request body is a JSON value; a field that is absent reads as \<open>JUndefined\<close>. When
  a key occurs twice in an object the last occurrence wins, as in \<open>JSON.parse\<close>.
\<close>

datatype json =
    JUndefined
  | JNull
  | JBool bool
  | JNum rat
  | JStr string
  | JArr "json list"
  | JObj "(string \<times> json) list"

definition field :: "(string \<times> json) list \<Rightarrow> string \<Rightarrow> json" where
  "field kvs k = (case map_of (rev kvs) k of None \<Rightarrow> JUndefined | Some v \<Rightarrow> v)"

text \<open>
  A validation issue: the path of the offending value and the message the schema gives
  for the failed check (\<open>None\<close> where the schema gives none and the library's own text
  is used).
\<close>

datatype pathkey = Key string | Index nat

datatype zissue = ZIssue "pathkey list" "string option"

definition z_string_min :: "nat \<Rightarrow> string option \<Rightarrow> pathkey list \<Rightarrow> json \<Rightarrow> zissue list" where
  "z_string_min n msg p v =
     (case v of
        JStr s \<Rightarrow> if length s < n then [ZIssue p msg] else []
      | _ \<Rightarrow> [ZIssue p None])"

definition z_string_url :: "(string \<Rightarrow> bool) \<Rightarrow> string option \<Rightarrow> pathkey list \<Rightarrow> json \<Rightarrow> zissue list" where
  "z_string_url isUrl msg p v =
     (case v of
        JStr s \<Rightarrow> if isUrl s then [] else [ZIssue p msg]
      | _ \<Rightarrow> [ZIssue p None])"

definition z_number_min0 :: "string option \<Rightarrow> pathkey list \<Rightarrow> json \<Rightarrow> zissue list" where
  "z_number_min0 msg p v =
     (case v of
        JNum r \<Rightarrow> if r < 0 then [ZIssue p msg] else []
      | _ \<Rightarrow> [ZIssue p None])"

definition z_boolean :: "pathkey list \<Rightarrow> json \<Rightarrow> zissue list" where
  "z_boolean p v = (case v of JBool b \<Rightarrow> [] | _ \<Rightarrow> [ZIssue p None])"

definition z_number_int_min0 :: "pathkey list \<Rightarrow> json \<Rightarrow> zissue list" where
  "z_number_int_min0 p v =
     (case v of
        JNum r \<Rightarrow>
          (if of_int \<lfloor>r\<rfloor> = r then [] else [ZIssue p None]) @
          (if r < 0 then [ZIssue p None] else [])
      | _ \<Rightarrow> [ZIssue p None])"

definition z_optional :: "(json \<Rightarrow> zissue list) \<Rightarrow> json \<Rightarrow> zissue list" where
  "z_optional chk v = (if v = JUndefined then [] else chk v)"

definition opt_string :: "json \<Rightarrow> string option" where
  "opt_string v = (case v of JStr s \<Rightarrow> Some s | _ \<Rightarrow> None)"

definition opt_number :: "json \<Rightarrow> rat option" where
  "opt_number v = (case v of JNum r \<Rightarrow> Some r | _ \<Rightarrow> None)"

definition opt_boolean :: "json \<Rightarrow> bool option" where
  "opt_boolean v = (case v of JBool b \<Rightarrow> Some b | _ \<Rightarrow> None)"

definition opt_int :: "json \<Rightarrow> int option" where
  "opt_int v = (case v of JNum r \<Rightarrow> Some \<lfloor>r\<rfloor> | _ \<Rightarrow> None)"

text \<open>
  What the two lecture schemas yield when the body passes: an optional field that is
  absent is \<open>None\<close> (JavaScript's \<open>undefined\<close>).
\<close>

record create_body =
  new_title :: string
  new_videoUrl :: "string option"
  new_duration :: "rat option"
  new_isPreview :: "bool option"
  new_order :: "int option"

record update_body =
  upd_title :: "string option"
  upd_videoUrl :: "string option"
  upd_duration :: "rat option"
  upd_isPreview :: "bool option"
  upd_order :: "int option"

definition create_body_of :: "(string \<times> json) list \<Rightarrow> create_body" where
  "create_body_of kvs =
     \<lparr> new_title = (case field kvs ''title'' of JStr s \<Rightarrow> s | _ \<Rightarrow> []),
       new_videoUrl = opt_string (field kvs ''videoUrl''),
       new_duration = opt_number (field kvs ''duration''),
       new_isPreview = opt_boolean (field kvs ''isPreview''),
       new_order = opt_int (field kvs ''order'') \<rparr>"

definition update_body_of :: "(string \<times> json) list \<Rightarrow> update_body" where
  "update_body_of kvs =
     \<lparr> upd_title = opt_string (field kvs ''title''),
       upd_videoUrl = opt_string (field kvs ''videoUrl''),
       upd_duration = opt_number (field kvs ''duration''),
       upd_isPreview = opt_boolean (field kvs ''isPreview''),
       upd_order = opt_int (field kvs ''order'') \<rparr>"

text \<open>
  \<open>createLectureSchema\<close> and \<open>updateLectureSchema\<close>. The predicate \<open>isUrl\<close> is the
  validation library's URL test, which the schemas call through \<open>z.string().url()\<close>.
  A schema collects the issues of all its fields, in the order the fields are declared.
\<close>

definition createLectureSchema :: "(string \<Rightarrow> bool) \<Rightarrow> json \<Rightarrow> zissue list + create_body" where
  "createLectureSchema isUrl body =
     (case body of
        JObj kvs \<Rightarrow>
          (let issues =
                 z_string_min 3 (Some ''Title must be at least 3 characters'') [Key ''title'']
                   (field kvs ''title'') @
                 z_optional (z_string_url isUrl (Some ''Invalid video URL'') [Key ''videoUrl''])
                   (field kvs ''videoUrl'') @
                 z_optional (z_number_min0 (Some ''Duration must be positive'') [Key ''duration''])
                   (field kvs ''duration'') @
                 z_optional (z_boolean [Key ''isPreview'']) (field kvs ''isPreview'') @
                 z_optional (z_number_int_min0 [Key ''order'']) (field kvs ''order'')
           in if issues = [] then Inr (create_body_of kvs) else Inl issues)
      | _ \<Rightarrow> Inl [ZIssue [] None])"

definition updateLectureSchema :: "(string \<Rightarrow> bool) \<Rightarrow> json \<Rightarrow> zissue list + update_body" where
  "updateLectureSchema isUrl body =
     (case body of
        JObj kvs \<Rightarrow>
          (let issues =
                 z_optional (z_string_min 3 None [Key ''title'']) (field kvs ''title'') @
                 z_optional (z_string_url isUrl None [Key ''videoUrl'']) (field kvs ''videoUrl'') @
                 z_optional (z_number_min0 None [Key ''duration'']) (field kvs ''duration'') @
                 z_optional (z_boolean [Key ''isPreview'']) (field kvs ''isPreview'') @
                 z_optional (z_number_int_min0 [Key ''order'']) (field kvs ''order'')
           in if issues = [] then Inr (update_body_of kvs) else Inl issues)
      | _ \<Rightarrow> Inl [ZIssue [] None])"

text \<open>The schema \<open>reorderLectures\<close> builds in place: a non-empty array of strings.\<close>

definition reorderSchema :: "json \<Rightarrow> zissue list + string list" where
  "reorderSchema body =
     (case body of
        JObj kvs \<Rightarrow>
          (case field kvs ''lectureIds'' of
             JArr vs \<Rightarrow>
               (let issues =
                      (if length vs < 1
                       then [ZIssue [Key ''lectureIds''] (Some ''Lecture IDs array required'')]
                       else []) @
                      concat (map (\<lambda>(i, v). z_string_min 0 None [Key ''lectureIds'', Index i] v)
                                (enumerate 0 vs))
                in if issues = [] then Inr (List.map_filter opt_string vs) else Inl issues)
           | _ \<Rightarrow> Inl [ZIssue [Key ''lectureIds''] None])
      | _ \<Rightarrow> Inl [ZIssue [] None])"

text \<open>\<open>addToWishlistSchema\<close>: a non-empty string \<open>courseId\<close>.\<close>

definition addToWishlistSchema :: "json \<Rightarrow> zissue list + string" where
  "addToWishlistSchema body =
     (case body of
        JObj kvs \<Rightarrow>
          (case z_string_min 1 (Some ''Course ID is required'') [Key ''courseId'']
                  (field kvs ''courseId'') of
             [] \<Rightarrow> (case field kvs ''courseId'' of JStr s \<Rightarrow> Inr s | _ \<Rightarrow> Inl [ZIssue [Key ''courseId''] None])
           | issues \<Rightarrow> Inl issues)
      | _ \<Rightarrow> Inl [ZIssue [] None])"

section \<open>The response envelope\<close>

datatype populated_lecture = PopulatedLecture lecture section_doc course

record populated_wishlist =
  pw_id :: "oid option"
  pw_user :: oid
  pw_courses :: "course list"

datatype payload =
    NoData
  | PNull
  | PIssues "zissue list"
  | PLectures "lecture list"
  | PLecture lecture
  | PLecturePopulated populated_lecture
  | PWishlist populated_wishlist
  | PIsInWishlist json

datatype status = Success | Created | BadRequest | Forbidden | NotFound | Conflict | ServerError

text \<open>
  Modelled from the spec: the class \<open>ApiResponse\<close> (\<open>utils/ApiResponse.js\<close>) is not
  among the sources. The spec calls it a uniform JSON envelope and names the outcomes a
  controller reports (bad request, not found, forbidden, server error); the controllers
  build it through the factories \<open>success\<close>, \<open>created\<close>, \<open>badRequest\<close>, \<open>forbidden\<close>,
  \<open>notFound\<close>, \<open>conflict\<close> and \<open>serverError\<close>, each with a message and optional data,
  and deliver it with \<open>send(res)\<close>. An envelope records which factory built it, the
  message and the data.
\<close>

record api_response =
  status :: status
  message :: string
  payload :: payload

definition ApiResponse_success :: "string \<Rightarrow> payload \<Rightarrow> api_response" where
  "ApiResponse_success m d = \<lparr> status = Success, message = m, payload = d \<rparr>"

definition ApiResponse_created :: "string \<Rightarrow> payload \<Rightarrow> api_response" where
  "ApiResponse_created m d = \<lparr> status = Created, message = m, payload = d \<rparr>"

definition ApiResponse_badRequest :: "string \<Rightarrow> zissue list \<Rightarrow> api_response" where
  "ApiResponse_badRequest m issues = \<lparr> status = BadRequest, message = m, payload = PIssues issues \<rparr>"

definition ApiResponse_forbidden :: "string \<Rightarrow> api_response" where
  "ApiResponse_forbidden m = \<lparr> status = Forbidden, message = m, payload = NoData \<rparr>"

definition ApiResponse_notFound :: "string \<Rightarrow> api_response" where
  "ApiResponse_notFound m = \<lparr> status = NotFound, message = m, payload = NoData \<rparr>"

definition ApiResponse_conflict :: "string \<Rightarrow> api_response" where
  "ApiResponse_conflict m = \<lparr> status = Conflict, message = m, payload = NoData \<rparr>"

definition ApiResponse_serverError :: "string \<Rightarrow> api_response" where
  "ApiResponse_serverError m = \<lparr> status = ServerError, message = m, payload = NoData \<rparr>"

section \<open>The database and the calls made on it\<close>

text \<open>
  Every call on a model (\<open>Section.findById\<close>, \<open>lecture.save\<close>, ...) is awaited and may
  reject: the connection is lost, an id does not cast, a schema validator of the model
  refuses the document. Which calls reject is not decided by the controllers, so the
  world carries it as \<open>faults\<close>: the outcomes of the coming calls, \<open>True\<close> for a call that
  rejects; once the list is used up every call resolves. The world also keeps \<open>calls\<close>,
  the log of the calls issued so far with their outcomes. A call that rejects writes
  nothing.
\<close>

datatype orm_call =
    SectionFindById oid
  | CourseFindById oid
  | LectureFind oid
  | LectureFindById oid
  | LectureFindOne oid
  | LectureCreate oid
  | LectureSave oid
  | LectureFindByIdAndDelete oid
  | LectureFindByIdAndUpdate oid int
  | EnrollmentFindOne "oid option" oid
  | WishlistFindOne oid
  | WishlistFindById oid
  | WishlistCreate oid
  | WishlistSave oid

datatype outcome = Resolved | Rejected

record world =
  sections :: "section_doc list"
  courses :: "course list"
  lectures :: "lecture list"
  enrollments :: "enrollment list"
  wishlists :: "wishlist list"
  faults :: "bool list"
  calls :: "(orm_call \<times> outcome) list"

fun mutating :: "orm_call \<Rightarrow> bool" where
  "mutating (LectureCreate _) = True"
| "mutating (LectureSave _) = True"
| "mutating (LectureFindByIdAndDelete _) = True"
| "mutating (LectureFindByIdAndUpdate _ _) = True"
| "mutating (WishlistCreate _) = True"
| "mutating (WishlistSave _) = True"
| "mutating _ = False"

datatype exn = ZodError "zissue list" | TypeError | DbError

type_synonym 'a action = "world \<Rightarrow> (exn + 'a) \<times> world"

definition ret :: "'a \<Rightarrow> 'a action" where
  "ret x w = (Inr x, w)"

definition throw :: "exn \<Rightarrow> 'a action" where
  "throw e w = (Inl e, w)"

definition await :: "'a action \<Rightarrow> ('a \<Rightarrow> 'b action) \<Rightarrow> 'b action" where
  "await m k w = (case m w of (Inl e, w') \<Rightarrow> (Inl e, w') | (Inr x, w') \<Rightarrow> k x w')"

definition rejects :: "bool list \<Rightarrow> bool" where
  "rejects fs = (case fs of [] \<Rightarrow> False | b # _ \<Rightarrow> b)"

definition orm :: "orm_call \<Rightarrow> (world \<Rightarrow> 'a \<times> world) \<Rightarrow> 'a action" where
  "orm c f w =
     (if rejects (faults w)
      then (Inl DbError, w\<lparr> faults := tl (faults w), calls := calls w @ [(c, Rejected)] \<rparr>)
      else (case f w of
              (x, w') \<Rightarrow> (Inr x, w'\<lparr> faults := tl (faults w), calls := calls w @ [(c, Resolved)] \<rparr>)))"


subsection \<open>Queries and writes\<close>

text \<open>\<open>Section.findById(sectionId).populate('course')\<close>\<close>

definition Section_findById :: "oid \<Rightarrow> (section_doc \<times> course option) option action" where
  "Section_findById sectionId =
     orm (SectionFindById sectionId) (\<lambda>w.
       (map_option (\<lambda>s. (s, find (\<lambda>c. course_id c = section_course s) (courses w)))
          (find (\<lambda>s. section_id s = sectionId) (sections w)), w))"

text \<open>\<open>Course.findById(courseId)\<close>\<close>

definition Course_findById :: "string \<Rightarrow> course option action" where
  "Course_findById courseId =
     orm (CourseFindById courseId) (\<lambda>w.
       (find (\<lambda>c. course_id c = objectId courseId) (courses w), w))"

text \<open>\<open>Lecture.find({ section: sectionId }).sort({ order: 1 })\<close>\<close>

definition Lecture_find :: "oid \<Rightarrow> lecture list action" where
  "Lecture_find sectionId =
     orm (LectureFind sectionId) (\<lambda>w.
       (sort_key lecture_order (filter (\<lambda>l. lecture_section l = sectionId) (lectures w)), w))"

text \<open>\<open>Lecture.findById(id).populate({ path: 'section', populate: { path: 'course' } })\<close>\<close>

definition Lecture_findById ::
  "oid \<Rightarrow> (lecture \<times> (section_doc \<times> course option) option) option action" where
  "Lecture_findById id' =
     orm (LectureFindById id') (\<lambda>w.
       (map_option
          (\<lambda>l. (l, map_option (\<lambda>s. (s, find (\<lambda>c. course_id c = section_course s) (courses w)))
                     (find (\<lambda>s. section_id s = lecture_section l) (sections w))))
          (find (\<lambda>l. lecture_id l = id') (lectures w)), w))"

text \<open>\<open>Lecture.findOne({ section: sectionId }).sort({ order: -1 })\<close>\<close>

definition Lecture_findOne :: "oid \<Rightarrow> lecture option action" where
  "Lecture_findOne sectionId =
     orm (LectureFindOne sectionId) (\<lambda>w.
       (case sort_key (\<lambda>l. - lecture_order l)
               (filter (\<lambda>l. lecture_section l = sectionId) (lectures w)) of
          [] \<Rightarrow> None
        | l # _ \<Rightarrow> Some l, w))"

text \<open>\<open>Lecture.create(doc)\<close>\<close>

definition Lecture_create :: "lecture \<Rightarrow> lecture action" where
  "Lecture_create doc =
     orm (LectureCreate (lecture_id doc)) (\<lambda>w. (doc, w\<lparr> lectures := lectures w @ [doc] \<rparr>))"

text \<open>\<open>lecture.save()\<close>\<close>

definition Lecture_save :: "lecture \<Rightarrow> unit action" where
  "Lecture_save doc =
     orm (LectureSave (lecture_id doc)) (\<lambda>w.
       ((), w\<lparr> lectures := map (\<lambda>l. if lecture_id l = lecture_id doc then doc else l) (lectures w) \<rparr>))"

text \<open>\<open>Lecture.findByIdAndDelete(id)\<close>\<close>

definition Lecture_findByIdAndDelete :: "oid \<Rightarrow> unit action" where
  "Lecture_findByIdAndDelete id' =
     orm (LectureFindByIdAndDelete id') (\<lambda>w.
       ((), w\<lparr> lectures := filter (\<lambda>l. lecture_id l \<noteq> id') (lectures w) \<rparr>))"

text \<open>\<open>Lecture.findByIdAndUpdate(lectureId, { order: index })\<close>\<close>

definition Lecture_findByIdAndUpdate :: "oid \<Rightarrow> int \<Rightarrow> unit action" where
  "Lecture_findByIdAndUpdate lectureId index =
     orm (LectureFindByIdAndUpdate lectureId index) (\<lambda>w.
       ((), w\<lparr> lectures :=
                 map (\<lambda>l. if lecture_id l = lectureId then l\<lparr> lecture_order := index \<rparr> else l)
                   (lectures w) \<rparr>))"

text \<open>
  \<open>Enrollment.findOne({ user: req.user?._id, course: course._id })\<close>. Every enrollment
  has a user, so a filter whose user is \<open>undefined\<close> matches none.
\<close>

definition Enrollment_findOne :: "oid option \<Rightarrow> oid \<Rightarrow> enrollment option action" where
  "Enrollment_findOne userId courseId =
     orm (EnrollmentFindOne userId courseId) (\<lambda>w.
       (find (\<lambda>e. Some (enrollment_user e) = userId \<and> enrollment_course e = courseId)
          (enrollments w), w))"

text \<open>
  \<open>Promise.all(lectureIds.map((lectureId, index) => Lecture.findByIdAndUpdate(...)))\<close>:
  every update of the array is issued, whatever becomes of the others, and the whole
  rejects when one of them does. The updates are taken in the order of the array.
\<close>

fun Promise_all_updates :: "(nat \<times> oid) list \<Rightarrow> unit action" where
  "Promise_all_updates [] w = (Inr (), w)"
| "Promise_all_updates ((index, lectureId) # rest) w =
     (case Lecture_findByIdAndUpdate lectureId (int index) w of
        (r, w1) \<Rightarrow>
          (case Promise_all_updates rest w1 of
             (rs, w2) \<Rightarrow> ((case r of Inl e \<Rightarrow> Inl e | Inr u \<Rightarrow> rs), w2)))"

section \<open>The lecture controller\<close>

text \<open>
  A handler is its \<open>try\<close> block, an action that returns the envelope it sends or throws,
  under its \<open>catch\<close> block. \<open>return ApiResponse.f(...).send(res)\<close> is the handler
  returning that envelope. Of the request a handler receives what it reads: its URL
  parameters, its body, and \<open>req.user\<close> (\<open>None\<close> when no user is attached). Reading a
  property of \<open>null\<close> or \<open>undefined\<close> throws a \<open>TypeError\<close>.
\<close>

definition catch_error :: "string \<Rightarrow> api_response action \<Rightarrow> world \<Rightarrow> api_response \<times> world" where
  "catch_error failure body w =
     (case body w of
        (Inr r, w') \<Rightarrow> (r, w')
      | (Inl e, w') \<Rightarrow> (ApiResponse_serverError failure, w'))"

definition catch_zod_error :: "string \<Rightarrow> api_response action \<Rightarrow> world \<Rightarrow> api_response \<times> world" where
  "catch_zod_error failure body w =
     (case body w of
        (Inr r, w') \<Rightarrow> (r, w')
      | (Inl (ZodError issues), w') \<Rightarrow> (ApiResponse_badRequest ''Validation failed'' issues, w')
      | (Inl e, w') \<Rightarrow> (ApiResponse_serverError failure, w'))"

definition getSectionLectures_try :: "oid \<Rightarrow> user option \<Rightarrow> api_response action" where
  "getSectionLectures_try sectionId req_user =
     await (Section_findById sectionId) (\<lambda>section.
       case section of
         None \<Rightarrow> ret (ApiResponse_notFound ''Section not found'')
       | Some (sec, sec_course) \<Rightarrow>
           (case sec_course of
              None \<Rightarrow> throw TypeError
            | Some c \<Rightarrow>
                if \<not> course_published c \<and>
                   (case req_user of
                      None \<Rightarrow> True
                    | Some u \<Rightarrow> course_instructor c \<noteq> user_id u \<and> user_role u \<noteq> ''admin'')
                then ret (ApiResponse_forbidden ''Unauthorized access'')
                else await (Lecture_find sectionId) (\<lambda>lectures.
                       ret (ApiResponse_success ''Lectures fetched successfully''
                              (PLectures lectures)))))"

definition getSectionLectures :: "oid \<Rightarrow> user option \<Rightarrow> world \<Rightarrow> api_response \<times> world" where
  "getSectionLectures sectionId req_user =
     catch_error ''Failed to fetch lectures'' (getSectionLectures_try sectionId req_user)"

definition getLecture_try :: "oid \<Rightarrow> user option \<Rightarrow> api_response action" where
  "getLecture_try id' req_user =
     await (Lecture_findById id') (\<lambda>lecture.
       case lecture of
         None \<Rightarrow> ret (ApiResponse_notFound ''Lecture not found'')
       | Some (lec, lec_section) \<Rightarrow>
           (case lec_section of
              None \<Rightarrow> throw TypeError
            | Some (sec, None) \<Rightarrow> throw TypeError
            | Some (sec, Some c) \<Rightarrow>
                (let fetched = ret (ApiResponse_success ''Lecture fetched successfully''
                                      (PLecturePopulated (PopulatedLecture lec sec c)))
                 in if \<not> course_published c \<or> \<not> lecture_isPreview lec
                    then if (case req_user of
                               None \<Rightarrow> True
                             | Some u \<Rightarrow> course_instructor c \<noteq> user_id u \<and> user_role u \<noteq> ''admin'')
                         then await (Enrollment_findOne (map_option user_id req_user) (course_id c))
                                (\<lambda>enrollment.
                                   case enrollment of
                                     None \<Rightarrow> ret (ApiResponse_forbidden
                                                    ''You must be enrolled to access this lecture'')
                                   | Some e \<Rightarrow> fetched)
                         else fetched
                    else fetched)))"

definition getLecture :: "oid \<Rightarrow> user option \<Rightarrow> world \<Rightarrow> api_response \<times> world" where
  "getLecture id' req_user = catch_error ''Failed to fetch lecture'' (getLecture_try id' req_user)"

text \<open>
  An order is a JavaScript number, a double, and \<open>lastLecture.order + 1\<close> is the sum of
  doubles: the double nearest to the exact sum, a tie going to the even significand.
  \<open>to_double n\<close> is that double for an integer \<open>n\<close>: with 53 bits of significand every
  integer up to \<open>2^53\<close> in absolute value is a double itself, and beyond, doubles are
  \<open>ulp\<close> apart. (The overflow to \<open>Infinity\<close> past \<open>2^1024\<close> is not modelled.)
\<close>

fun ulp :: "nat \<Rightarrow> nat" where
  "ulp a = (if a < 9007199254740992 then 1 else 2 * ulp (a div 2))"

declare ulp.simps [simp del]

definition to_double :: "int \<Rightarrow> int" where
  "to_double n =
     (let a = nat \<bar>n\<bar>;
          u = ulp a;
          q = a div u;
          r = a mod u;
          m = (if 2 * r < u \<or> (2 * r = u \<and> even q) then q else q + 1)
      in sgn n * int (m * u))"

text \<open>
  \<open>createLecture\<close>. \<open>new_id\<close> is the id the database layer gives the created document.
\<close>

definition createLecture_try ::
  "(string \<Rightarrow> bool) \<Rightarrow> oid \<Rightarrow> json \<Rightarrow> user option \<Rightarrow> oid \<Rightarrow> api_response action" where
  "createLecture_try isUrl sectionId body req_user new_id =
     (case createLectureSchema isUrl body of
        Inl issues \<Rightarrow> throw (ZodError issues)
      | Inr b \<Rightarrow>
          await (Section_findById sectionId) (\<lambda>section.
            case section of
              None \<Rightarrow> ret (ApiResponse_notFound ''Section not found'')
            | Some (sec, sec_course) \<Rightarrow>
                (case (sec_course, req_user) of
                   (Some c, Some u) \<Rightarrow>
                     if course_instructor c \<noteq> user_id u \<and> user_role u \<noteq> ''admin''
                     then ret (ApiResponse_forbidden
                                 ''Only the course instructor can create lectures'')
                     else await
                            (case new_order b of
                               Some n \<Rightarrow> ret n
                             | None \<Rightarrow>
                                 await (Lecture_findOne sectionId) (\<lambda>lastLecture.
                                   ret (case lastLecture of
                                          Some l \<Rightarrow> to_double (lecture_order l + 1)
                                        | None \<Rightarrow> 0)))
                            (\<lambda>lectureOrder.
                               await (Lecture_create
                                        \<lparr> lecture_id = new_id,
                                          lecture_title = new_title b,
                                          lecture_section = sectionId,
                                          lecture_videoUrl = new_videoUrl b,
                                          lecture_duration = new_duration b,
                                          lecture_isPreview =
                                            (case new_isPreview b of Some p \<Rightarrow> p | None \<Rightarrow> False),
                                          lecture_order = lectureOrder \<rparr>)
                                 (\<lambda>lecture.
                                    ret (ApiResponse_created ''Lecture created successfully''
                                           (PLecture lecture))))
                 | _ \<Rightarrow> throw TypeError)))"

definition createLecture ::
  "(string \<Rightarrow> bool) \<Rightarrow> oid \<Rightarrow> json \<Rightarrow> user option \<Rightarrow> oid \<Rightarrow> world \<Rightarrow> api_response \<times> world" where
  "createLecture isUrl sectionId body req_user new_id =
     catch_zod_error ''Failed to create lecture''
       (createLecture_try isUrl sectionId body req_user new_id)"

definition updateLecture_try ::
  "(string \<Rightarrow> bool) \<Rightarrow> oid \<Rightarrow> json \<Rightarrow> user option \<Rightarrow> api_response action" where
  "updateLecture_try isUrl id' body req_user =
     (case updateLectureSchema isUrl body of
        Inl issues \<Rightarrow> throw (ZodError issues)
      | Inr updates \<Rightarrow>
          await (Lecture_findById id') (\<lambda>lecture.
            case lecture of
              None \<Rightarrow> ret (ApiResponse_notFound ''Lecture not found'')
            | Some (lec, lec_section) \<Rightarrow>
                (case (lec_section, req_user) of
                   (Some (sec, Some c), Some u) \<Rightarrow>
                     if course_instructor c \<noteq> user_id u \<and> user_role u \<noteq> ''admin''
                     then ret (ApiResponse_forbidden
                                 ''Only the course instructor can update lectures'')
                     else (let lec1 = (case upd_title updates of
                                         Some t \<Rightarrow> lec\<lparr> lecture_title := t \<rparr> | None \<Rightarrow> lec);
                               lec2 = (case upd_videoUrl updates of
                                         Some v \<Rightarrow> lec1\<lparr> lecture_videoUrl := Some v \<rparr> | None \<Rightarrow> lec1);
                               lec3 = (case upd_duration updates of
                                         Some d \<Rightarrow> lec2\<lparr> lecture_duration := Some d \<rparr> | None \<Rightarrow> lec2);
                               lec4 = (case upd_isPreview updates of
                                         Some p \<Rightarrow> lec3\<lparr> lecture_isPreview := p \<rparr> | None \<Rightarrow> lec3);
                               lec5 = (case upd_order updates of
                                         Some n \<Rightarrow> lec4\<lparr> lecture_order := n \<rparr> | None \<Rightarrow> lec4)
                           in await (Lecture_save lec5) (\<lambda>saved.
                                ret (ApiResponse_success ''Lecture updated successfully''
                                       (PLecturePopulated (PopulatedLecture lec5 sec c)))))
                 | _ \<Rightarrow> throw TypeError)))"

definition updateLecture ::
  "(string \<Rightarrow> bool) \<Rightarrow> oid \<Rightarrow> json \<Rightarrow> user option \<Rightarrow> world \<Rightarrow> api_response \<times> world" where
  "updateLecture isUrl id' body req_user =
     catch_zod_error ''Failed to update lecture'' (updateLecture_try isUrl id' body req_user)"

definition deleteLecture_try :: "oid \<Rightarrow> user option \<Rightarrow> api_response action" where
  "deleteLecture_try id' req_user =
     await (Lecture_findById id') (\<lambda>lecture.
       case lecture of
         None \<Rightarrow> ret (ApiResponse_notFound ''Lecture not found'')
       | Some (lec, lec_section) \<Rightarrow>
           (case (lec_section, req_user) of
              (Some (sec, Some c), Some u) \<Rightarrow>
                if course_instructor c \<noteq> user_id u \<and> user_role u \<noteq> ''admin''
                then ret (ApiResponse_forbidden ''Only the course instructor can delete lectures'')
                else await (Lecture_findByIdAndDelete id') (\<lambda>deleted.
                       ret (ApiResponse_success ''Lecture deleted successfully'' NoData))
            | _ \<Rightarrow> throw TypeError))"

definition deleteLecture :: "oid \<Rightarrow> user option \<Rightarrow> world \<Rightarrow> api_response \<times> world" where
  "deleteLecture id' req_user =
     catch_error ''Failed to delete lecture'' (deleteLecture_try id' req_user)"

definition reorderLectures_try :: "oid \<Rightarrow> json \<Rightarrow> user option \<Rightarrow> api_response action" where
  "reorderLectures_try sectionId body req_user =
     (case reorderSchema body of
        Inl issues \<Rightarrow> throw (ZodError issues)
      | Inr lectureIds \<Rightarrow>
          await (Section_findById sectionId) (\<lambda>section.
            case section of
              None \<Rightarrow> ret (ApiResponse_notFound ''Section not found'')
            | Some (sec, sec_course) \<Rightarrow>
                (case (sec_course, req_user) of
                   (Some c, Some u) \<Rightarrow>
                     if course_instructor c \<noteq> user_id u \<and> user_role u \<noteq> ''admin''
                     then ret (ApiResponse_forbidden
                                 ''Only the course instructor can reorder lectures'')
                     else await (Promise_all_updates (enumerate 0 lectureIds)) (\<lambda>updated.
                            await (Lecture_find sectionId) (\<lambda>updatedLectures.
                              ret (ApiResponse_success ''Lectures reordered successfully''
                                     (PLectures updatedLectures))))
                 | _ \<Rightarrow> throw TypeError)))"

definition reorderLectures :: "oid \<Rightarrow> json \<Rightarrow> user option \<Rightarrow> world \<Rightarrow> api_response \<times> world" where
  "reorderLectures sectionId body req_user =
     catch_zod_error ''Failed to reorder lectures'' (reorderLectures_try sectionId body req_user)"

section \<open>The wishlist controller\<close>

text \<open>
  Populating a wishlist replaces the course ids by the course documents they name; an
  id that names no course is dropped. The field selection of \<open>populate\<close> is not
  modelled.
\<close>

definition populate_courses :: "world \<Rightarrow> wishlist \<Rightarrow> populated_wishlist" where
  "populate_courses w wl =
     \<lparr> pw_id = Some (wishlist_id wl),
       pw_user = wishlist_user wl,
       pw_courses = List.map_filter (\<lambda>cid. find (\<lambda>c. course_id c = cid) (courses w))
                      (wishlist_courses wl) \<rparr>"

text \<open>\<open>Wishlist.findOne({ user: req.user._id })\<close>\<close>

definition Wishlist_findOne :: "oid \<Rightarrow> wishlist option action" where
  "Wishlist_findOne userId =
     orm (WishlistFindOne userId) (\<lambda>w. (find (\<lambda>wl. wishlist_user wl = userId) (wishlists w), w))"

text \<open>\<open>Wishlist.findOne({ user: req.user._id }).populate({ path: 'courses', ... })\<close>\<close>

definition Wishlist_findOne_populate :: "oid \<Rightarrow> populated_wishlist option action" where
  "Wishlist_findOne_populate userId =
     orm (WishlistFindOne userId) (\<lambda>w.
       (map_option (populate_courses w) (find (\<lambda>wl. wishlist_user wl = userId) (wishlists w)), w))"

text \<open>\<open>Wishlist.findById(wishlist._id).populate({ path: 'courses', ... })\<close>\<close>

definition Wishlist_findById :: "oid \<Rightarrow> populated_wishlist option action" where
  "Wishlist_findById id' =
     orm (WishlistFindById id') (\<lambda>w.
       (map_option (populate_courses w) (find (\<lambda>wl. wishlist_id wl = id') (wishlists w)), w))"

text \<open>\<open>Wishlist.create(doc)\<close>\<close>

definition Wishlist_create :: "wishlist \<Rightarrow> wishlist action" where
  "Wishlist_create doc =
     orm (WishlistCreate (wishlist_id doc)) (\<lambda>w. (doc, w\<lparr> wishlists := wishlists w @ [doc] \<rparr>))"

text \<open>\<open>wishlist.save()\<close>\<close>

definition Wishlist_save :: "wishlist \<Rightarrow> unit action" where
  "Wishlist_save doc =
     orm (WishlistSave (wishlist_id doc)) (\<lambda>w.
       ((), w\<lparr> wishlists :=
                 map (\<lambda>wl. if wishlist_id wl = wishlist_id doc then doc else wl) (wishlists w) \<rparr>))"

definition getMyWishlist_try :: "user option \<Rightarrow> api_response action" where
  "getMyWishlist_try req_user =
     (case req_user of
        None \<Rightarrow> throw TypeError
      | Some u \<Rightarrow>
          await (Wishlist_findOne_populate (user_id u)) (\<lambda>wishlist.
            ret (ApiResponse_success ''Wishlist fetched successfully''
                   (PWishlist (case wishlist of
                                 None \<Rightarrow> \<lparr> pw_id = None, pw_user = user_id u, pw_courses = [] \<rparr>
                               | Some pw \<Rightarrow> pw)))))"

definition getMyWishlist :: "user option \<Rightarrow> world \<Rightarrow> api_response \<times> world" where
  "getMyWishlist req_user = catch_error ''Failed to fetch wishlist'' (getMyWishlist_try req_user)"

text \<open>
  \<open>addToWishlist\<close>. \<open>new_id\<close> is the id the database layer gives a wishlist it creates.
  \<open>Course.findById(courseId)\<close>, \<open>Wishlist.create({ courses: [courseId] })\<close> and
  \<open>wishlist.courses.push(courseId)\<close> cast the string of the body to an ObjectId;
  \<open>wishlist.courses.includes(courseId)\<close> compares the string itself with the stored ids.
\<close>

definition addToWishlist_try :: "json \<Rightarrow> user option \<Rightarrow> oid \<Rightarrow> api_response action" where
  "addToWishlist_try body req_user new_id =
     (case addToWishlistSchema body of
        Inl issues \<Rightarrow> throw (ZodError issues)
      | Inr courseId \<Rightarrow>
          await (Course_findById courseId) (\<lambda>course.
            case course of
              None \<Rightarrow> ret (ApiResponse_notFound ''Course not found'')
            | Some c \<Rightarrow>
                (case req_user of
                   None \<Rightarrow> throw TypeError
                 | Some u \<Rightarrow>
                     await (Wishlist_findOne (user_id u)) (\<lambda>wishlist.
                       let respond = (\<lambda>wl_id.
                             await (Wishlist_findById wl_id) (\<lambda>populatedWishlist.
                               ret (ApiResponse_created ''Course added to wishlist''
                                      (case populatedWishlist of
                                         None \<Rightarrow> PNull
                                       | Some pw \<Rightarrow> PWishlist pw))))
                       in case wishlist of
                            None \<Rightarrow>
                              await (Wishlist_create
                                       \<lparr> wishlist_id = new_id,
                                         wishlist_user = user_id u,
                                         wishlist_courses = [objectId courseId] \<rparr>)
                                (\<lambda>wl. respond (wishlist_id wl))
                          | Some wl \<Rightarrow>
                              if courseId \<in> set (wishlist_courses wl)
                              then ret (ApiResponse_conflict ''Course already in wishlist'')
                              else await (Wishlist_save
                                            (wl\<lparr> wishlist_courses :=
                                                   wishlist_courses wl @ [objectId courseId] \<rparr>))
                                     (\<lambda>saved. respond (wishlist_id wl))))))"

definition addToWishlist :: "json \<Rightarrow> user option \<Rightarrow> oid \<Rightarrow> world \<Rightarrow> api_response \<times> world" where
  "addToWishlist body req_user new_id =
     catch_zod_error ''Failed to add to wishlist'' (addToWishlist_try body req_user new_id)"

definition removeFromWishlist_try :: "oid \<Rightarrow> user option \<Rightarrow> api_response action" where
  "removeFromWishlist_try courseId req_user =
     (case req_user of
        None \<Rightarrow> throw TypeError
      | Some u \<Rightarrow>
          await (Wishlist_findOne (user_id u)) (\<lambda>wishlist.
            case wishlist of
              None \<Rightarrow> ret (ApiResponse_notFound ''Course not in wishlist'')
            | Some wl \<Rightarrow>
                if courseId \<notin> set (wishlist_courses wl)
                then ret (ApiResponse_notFound ''Course not in wishlist'')
                else await (Wishlist_save
                              (wl\<lparr> wishlist_courses :=
                                     filter (\<lambda>i. i \<noteq> courseId) (wishlist_courses wl) \<rparr>))
                       (\<lambda>saved. ret (ApiResponse_success ''Course removed from wishlist'' NoData))))"

definition removeFromWishlist :: "oid \<Rightarrow> user option \<Rightarrow> world \<Rightarrow> api_response \<times> world" where
  "removeFromWishlist courseId req_user =
     catch_error ''Failed to remove from wishlist'' (removeFromWishlist_try courseId req_user)"

text \<open>
  \<open>checkWishlist\<close>: \<open>wishlist && wishlist.courses.includes(courseId)\<close> is the left
  operand when that is falsy, so \<open>null\<close> when there is no wishlist.
\<close>

definition checkWishlist_try :: "oid \<Rightarrow> user option \<Rightarrow> api_response action" where
  "checkWishlist_try courseId req_user =
     (case req_user of
        None \<Rightarrow> throw TypeError
      | Some u \<Rightarrow>
          await (Wishlist_findOne (user_id u)) (\<lambda>wishlist.
            let isInWishlist =
                  (case wishlist of
                     None \<Rightarrow> JNull
                   | Some wl \<Rightarrow> JBool (courseId \<in> set (wishlist_courses wl)))
            in ret (ApiResponse_success ''Wishlist status checked'' (PIsInWishlist isInWishlist))))"

definition checkWishlist :: "oid \<Rightarrow> user option \<Rightarrow> world \<Rightarrow> api_response \<times> world" where
  "checkWishlist courseId req_user =
     catch_error ''Failed to check wishlist status'' (checkWishlist_try courseId req_user)"

fun show_nat :: "nat \<Rightarrow> string" where
  "show_nat n =
     (if n < 10 then [''0123456789'' ! n]
      else show_nat (n div 10) @ [''0123456789'' ! (n mod 10)])"

declare show_nat.simps [simp del]

definition clearWishlist_try :: "user option \<Rightarrow> api_response action" where
  "clearWishlist_try req_user =
     (case req_user of
        None \<Rightarrow> throw TypeError
      | Some u \<Rightarrow>
          await (Wishlist_findOne (user_id u)) (\<lambda>wishlist.
            case wishlist of
              None \<Rightarrow> ret (ApiResponse_success ''Wishlist is already empty'' NoData)
            | Some wl \<Rightarrow>
                (let count = length (wishlist_courses wl)
                 in await (Wishlist_save (wl\<lparr> wishlist_courses := [] \<rparr>)) (\<lambda>saved.
                      ret (ApiResponse_success
                             (''Wishlist cleared ('' @ show_nat count @ '' items removed)'')
                             NoData)))))"

definition clearWishlist :: "user option \<Rightarrow> world \<Rightarrow> api_response \<times> world" where
  "clearWishlist req_user = catch_error ''Failed to clear wishlist'' (clearWishlist_try req_user)"

section \<open>The controllers as one function\<close>

text \<open>
  A request to one of the eleven exported handlers, with the URL parameters and the body
  the handler reads (and, for the two handlers that create a document, the id the
  database layer will give it).
\<close>

datatype request =
    GetSectionLectures oid
  | GetLecture oid
  | CreateLecture oid json oid
  | UpdateLecture oid json
  | DeleteLecture oid
  | ReorderLectures oid json
  | GetMyWishlist
  | AddToWishlist json oid
  | RemoveFromWishlist oid
  | CheckWishlist oid
  | ClearWishlist

fun controller ::
  "(string \<Rightarrow> bool) \<Rightarrow> request \<Rightarrow> user option \<Rightarrow> world \<Rightarrow> api_response \<times> world" where
  "controller isUrl (GetSectionLectures sectionId) u = getSectionLectures sectionId u"
| "controller isUrl (GetLecture id') u = getLecture id' u"
| "controller isUrl (CreateLecture sectionId body new_id) u = createLecture isUrl sectionId body u new_id"
| "controller isUrl (UpdateLecture id' body) u = updateLecture isUrl id' body u"
| "controller isUrl (DeleteLecture id') u = deleteLecture id' u"
| "controller isUrl (ReorderLectures sectionId body) u = reorderLectures sectionId body u"
| "controller isUrl GetMyWishlist u = getMyWishlist u"
| "controller isUrl (AddToWishlist body new_id) u = addToWishlist body u new_id"
| "controller isUrl (RemoveFromWishlist courseId) u = removeFromWishlist courseId u"
| "controller isUrl (CheckWishlist courseId) u = checkWishlist courseId u"
| "controller isUrl ClearWishlist u = clearWishlist u"


text \<open>The calls a request issued: what it added to the log.\<close>

definition issued :: "world \<Rightarrow> world \<Rightarrow> (orm_call \<times> outcome) list" where
  "issued w w' = drop (length (calls w)) (calls w')"

definition writes :: "(orm_call \<times> outcome) list \<Rightarrow> nat" where
  "writes cs = length (filter (\<lambda>(c, r). mutating c) cs)"

text \<open>Requests served one after the other, each on the world the one before left.\<close>

fun serve :: "(string \<Rightarrow> bool) \<Rightarrow> (request \<times> user option) list \<Rightarrow> world \<Rightarrow> world" where
  "serve isUrl [] w = w"
| "serve isUrl ((req, u) # rest) w = serve isUrl rest (snd (controller isUrl req u w))"

section \<open>The enrollment router\<close>

text \<open>
  A router is the list of its layers in the order they were registered. A request runs
  through the layers in that order: a \<open>use\<close> layer applies to every request, a route
  layer to the requests of its method whose path matches its pattern. A middleware either
  replies, which ends the request, or calls \<open>next\<close> with the request as it leaves it. A
  path is the list of its segments; a \<open>:name\<close> segment of a pattern matches any non-empty
  segment, any other segment matches itself.

  The middleware \<open>authenticate\<close> and the enrollment controllers are not among the
  sources: \<open>authenticate\<close> is a parameter of the router, and a controller is the end of
  the request that reaches it.
\<close>

datatype http_method = GET | POST | PUT | PATCH | DELETE

record http_request =
  request_method :: http_method
  request_path :: "string list"
  request_user :: "user option"

datatype segment = Lit string | Param string

datatype enrollment_controller =
    enrollCourse
  | getMyEnrollments
  | getEnrollment
  | checkEnrollment
  | unenrollCourse
  | getCourseEnrollments
  | markCourseCompleted

type_synonym 'r middleware = "http_request \<Rightarrow> 'r + http_request"

datatype 'r handler = Middleware "'r middleware" | Controller enrollment_controller

datatype 'r layer = Use "'r middleware" | Route http_method "segment list" "'r handler list"

datatype 'r routed = Reached enrollment_controller http_request | Replied 'r | Unrouted http_request

fun matches :: "segment list \<Rightarrow> string list \<Rightarrow> bool" where
  "matches [] [] = True"
| "matches (Lit s # ps) (x # xs) = (s = x \<and> matches ps xs)"
| "matches (Param n # ps) (x # xs) = (x \<noteq> [] \<and> matches ps xs)"
| "matches _ _ = False"

fun run_handlers :: "'r handler list \<Rightarrow> http_request \<Rightarrow> 'r routed" where
  "run_handlers [] req = Unrouted req"
| "run_handlers (Controller c # hs) req = Reached c req"
| "run_handlers (Middleware m # hs) req =
     (case m req of Inl r \<Rightarrow> Replied r | Inr req' \<Rightarrow> run_handlers hs req')"

fun route :: "'r layer list \<Rightarrow> http_request \<Rightarrow> 'r routed" where
  "route [] req = Unrouted req"
| "route (Use m # ls) req = (case m req of Inl r \<Rightarrow> Replied r | Inr req' \<Rightarrow> route ls req')"
| "route (Route meth pat hs # ls) req =
     (if request_method req = meth \<and> matches pat (request_path req)
      then (case run_handlers hs req of Unrouted req' \<Rightarrow> route ls req' | r \<Rightarrow> r)
      else route ls req)"

text \<open>
  Modelled from the spec: the middleware factory \<open>authorize\<close> (\<open>auth.middleware.js\<close>) is
  not among the sources. The spec says routes are gated by role middleware and that the
  role of a user is one of a fixed set; \<open>authorize(r1, r2, ...)\<close> lets a request pass
  when the role of its user is one of the roles listed and replies otherwise (\<open>denied\<close>
  is that reply).
\<close>

definition authorize :: "'r \<Rightarrow> string list \<Rightarrow> 'r middleware" where
  "authorize denied roles req =
     (case request_user req of
        None \<Rightarrow> Inl denied
      | Some u \<Rightarrow> if user_role u \<in> set roles then Inr req else Inl denied)"

definition enrollmentRouter :: "'r middleware \<Rightarrow> 'r \<Rightarrow> 'r layer list" where
  "enrollmentRouter authenticate denied =
     [ Use authenticate,
       Route POST [] [Controller enrollCourse],
       Route GET [Lit ''my''] [Controller getMyEnrollments],
       Route GET [Lit ''check'', Param ''courseId''] [Controller checkEnrollment],
       Route GET [Param ''courseId''] [Controller getEnrollment],
       Route DELETE [Param ''courseId''] [Controller unenrollCourse],
       Route PATCH [Param ''courseId'', Lit ''complete''] [Controller markCourseCompleted],
       Route GET [Lit ''course'', Param ''courseId'']
         [Middleware (authorize denied [''instructor'', ''admin'']),
          Controller getCourseEnrollments] ]"

section \<open>Auxiliary notions for the proofs\<close>

text \<open>
  What the order updates of a reorder request make of one lecture: the updates are taken
  in the order of the array, \<open>fs\<close> holds the outcomes of the calls, and an update that
  rejects leaves the lecture as it is.
\<close>

fun settle :: "(nat \<times> oid) list \<Rightarrow> bool list \<Rightarrow> lecture \<Rightarrow> lecture" where
  "settle [] fs l = l"
| "settle ((index, lectureId) # rest) fs l =
     settle rest (tl fs)
       (if \<not> rejects fs \<and> lecture_id l = lectureId then l\<lparr> lecture_order := int index \<rparr> else l)"

text \<open>The log entries of those updates.\<close>

fun update_log :: "(nat \<times> oid) list \<Rightarrow> bool list \<Rightarrow> (orm_call \<times> outcome) list" where
  "update_log [] fs = []"
| "update_log ((index, lectureId) # rest) fs =
     (LectureFindByIdAndUpdate lectureId (int index), if rejects fs then Rejected else Resolved) #
     update_log rest (tl fs)"

text \<open>No call follows a call that rejected.\<close>

definition stops_at_failure :: "(orm_call \<times> outcome) list \<Rightarrow> bool" where
  "stops_at_failure cs = (Rejected \<notin> snd ` set (butlast cs))"

text \<open>
  An action keeps a tidy log, with at most \<open>n\<close> writes, when from every world it only
  adds to the log, adds at most \<open>n\<close> mutating calls, issues no call after one that
  rejected, and throws the database error when a call rejected.
\<close>

definition logged :: "nat \<Rightarrow> world \<Rightarrow> (exn + 'a) \<times> world \<Rightarrow> bool" where
  "logged n w rw =
     (case rw of
        (r, w') \<Rightarrow>
          calls w' = calls w @ issued w w' \<and>
          writes (issued w w') \<le> n \<and>
          stops_at_failure (issued w w') \<and>
          (Rejected \<in> snd ` set (issued w w') \<longrightarrow> r = Inl DbError))"

definition tidy :: "nat \<Rightarrow> 'a action \<Rightarrow> bool" where
  "tidy n m = (\<forall>w. logged n w (m w))"

text \<open>An action answers within \<open>S\<close> when every envelope it returns is in \<open>S\<close>.\<close>

definition answers :: "api_response set \<Rightarrow> api_response action \<Rightarrow> bool" where
  "answers S m = (\<forall>w. case fst (m w) of Inr r \<Rightarrow> r \<in> S | Inl e \<Rightarrow> True)"

section \<open>A small database for the examples\<close>

definition teacher :: user where
  "teacher = \<lparr> user_id = ''teacher'', user_role = ''instructor'' \<rparr>"

definition admin :: user where
  "admin = \<lparr> user_id = ''root'', user_role = ''admin'' \<rparr>"

definition student :: user where
  "student = \<lparr> user_id = ''student'', user_role = ''student'' \<rparr>"

definition visitor :: user where
  "visitor = \<lparr> user_id = ''visitor'', user_role = ''student'' \<rparr>"

definition draft_course :: course where
  "draft_course = \<lparr> course_id = ''c1'', course_instructor = ''teacher'', course_published = False \<rparr>"

definition open_course :: course where
  "open_course = \<lparr> course_id = ''c2'', course_instructor = ''teacher'', course_published = True \<rparr>"

definition draft_section :: section_doc where
  "draft_section = \<lparr> section_id = ''s1'', section_course = ''c1'' \<rparr>"

definition open_section :: section_doc where
  "open_section = \<lparr> section_id = ''s2'', section_course = ''c2'' \<rparr>"

definition empty_section :: section_doc where
  "empty_section = \<lparr> section_id = ''s3'', section_course = ''c1'' \<rparr>"

definition lecture_one :: lecture where
  "lecture_one =
     \<lparr> lecture_id = ''l1'', lecture_title = ''Sets'', lecture_section = ''s1'',
       lecture_videoUrl = None, lecture_duration = None, lecture_isPreview = False,
       lecture_order = 0 \<rparr>"

definition lecture_two :: lecture where
  "lecture_two =
     \<lparr> lecture_id = ''l2'', lecture_title = ''Maps'', lecture_section = ''s1'',
       lecture_videoUrl = None, lecture_duration = Some 12, lecture_isPreview = False,
       lecture_order = 4 \<rparr>"

definition lecture_three :: lecture where
  "lecture_three =
     \<lparr> lecture_id = ''l3'', lecture_title = ''Lists'', lecture_section = ''s2'',
       lecture_videoUrl = None, lecture_duration = None, lecture_isPreview = True,
       lecture_order = 7 \<rparr>"

definition campus :: world where
  "campus =
     \<lparr> sections = [draft_section, open_section, empty_section],
       courses = [draft_course, open_course],
       lectures = [lecture_one, lecture_two, lecture_three],
       enrollments = [\<lparr> enrollment_user = ''student'', enrollment_course = ''c1'' \<rparr>],
       wishlists = [\<lparr> wishlist_id = ''w1'', wishlist_user = ''student'', wishlist_courses = [''c2''] \<rparr>],
       faults = [],
       calls = [] \<rparr>"

text \<open>The same database with a lecture of section \<open>s1\<close> at the order \<open>2^53\<close>.\<close>

definition far_campus :: world where
  "far_campus =
     campus\<lparr> lectures :=
               [lecture_one, lecture_two\<lparr> lecture_order := 9007199254740992 \<rparr>, lecture_three] \<rparr>"

text \<open>A database with one course under a full ObjectId, and no wishlist yet.\<close>

definition hex_course :: course where
  "hex_course =
     \<lparr> course_id = ''64b7f0c2a1d3e4f5a6b7637a'', course_instructor = ''teacher'',
       course_published = True \<rparr>"

definition shelf :: world where
  "shelf = campus\<lparr> courses := [hex_course], wishlists := [] \<rparr>"

text \<open>
  An \<open>authenticate\<close> for the examples: it lets the requests that carry a user pass.
\<close>

definition session_auth :: "string middleware" where
  "session_auth req = (case request_user req of None \<Rightarrow> Inl ''login'' | Some u \<Rightarrow> Inr req)"

definition ids_body :: "string list \<Rightarrow> json" where
  "ids_body ids = JObj [(''lectureIds'', JArr (map JStr ids))]"

definition title_body :: "string \<Rightarrow> json" where
  "title_body t = JObj [(''title'', JStr t)]"

definition course_body :: "string \<Rightarrow> json" where
  "course_body c = JObj [(''courseId'', JStr c)]"

section \<open>Basic facts\<close>

lemma await_ret [simp]: "await (ret x) k = k x"
  by (simp add: await_def ret_def fun_eq_iff)

lemma await_throw [simp]: "await (throw e) k = throw e"
  by (simp add: await_def throw_def fun_eq_iff)

lemma orm_resolved:
  "\<not> rejects (faults w) \<Longrightarrow>
   orm c f w =
     (Inr (fst (f w)),
      (snd (f w))\<lparr> faults := tl (faults w), calls := calls w @ [(c, Resolved)] \<rparr>)"
  by (simp add: orm_def split: prod.splits)

lemma orm_rejected:
  "rejects (faults w) \<Longrightarrow>
   orm c f w = (Inl DbError, w\<lparr> faults := tl (faults w), calls := calls w @ [(c, Rejected)] \<rparr>)"
  by (simp add: orm_def)

lemma no_fault_rejects: "True \<notin> set fs \<Longrightarrow> \<not> rejects fs"
  by (cases fs) (auto simp: rejects_def)

lemma no_fault_tl: "True \<notin> set fs \<Longrightarrow> True \<notin> set (tl fs)"
  by (cases fs) auto

lemma rejects_Nil [simp]: "\<not> rejects []"
  by (simp add: rejects_def)

lemma rejects_Cons [simp]: "rejects (b # fs) = b"
  by (simp add: rejects_def)

lemmas orm_calls =
  Section_findById_def Course_findById_def Lecture_find_def Lecture_findById_def
  Lecture_findOne_def Lecture_create_def Lecture_save_def Lecture_findByIdAndDelete_def
  Lecture_findByIdAndUpdate_def Enrollment_findOne_def Wishlist_findOne_def
  Wishlist_findOne_populate_def Wishlist_findById_def Wishlist_create_def Wishlist_save_def

lemmas envelopes =
  ApiResponse_success_def ApiResponse_created_def ApiResponse_badRequest_def
  ApiResponse_forbidden_def ApiResponse_notFound_def ApiResponse_conflict_def
  ApiResponse_serverError_def

lemmas example_docs =
  teacher_def admin_def student_def visitor_def draft_course_def open_course_def
  draft_section_def open_section_def empty_section_def lecture_one_def lecture_two_def lecture_three_def campus_def

section \<open>What the batch of order updates does\<close>

lemma Promise_all_updates_effect:
  "Promise_all_updates ps w =
     ((if True \<in> set (take (length ps) (faults w)) then Inl DbError else Inr ()),
      w\<lparr> lectures := map (settle ps (faults w)) (lectures w),
         faults := drop (length ps) (faults w),
         calls := calls w @ update_log ps (faults w) \<rparr>)"
proof (induction ps arbitrary: w)
  case Nil
  show ?case by simp
next
  case (Cons p ps)
  obtain index lectureId where p: "p = (index, lectureId)" by (cases p)
  show ?case
  proof (cases "faults w")
    case Nil
    then show ?thesis
      by (simp add: p Cons.IH Lecture_findByIdAndUpdate_def orm_def o_def)
  next
    case (Cons b fs)
    then show ?thesis
      by (cases b) (simp_all add: p Cons.IH Lecture_findByIdAndUpdate_def orm_def o_def drop_Suc)
  qed
qed

lemma no_fault_take: "True \<notin> set fs \<Longrightarrow> True \<notin> set (take n fs)"
  by (auto dest: in_set_takeD)

lemma no_fault_drop: "True \<notin> set fs \<Longrightarrow> True \<notin> set (drop n fs)"
  by (auto dest: in_set_dropD)

lemma find_Some_Bex: "find P es = Some e \<Longrightarrow> \<exists>e \<in> set es. P e"
  by (auto simp: find_Some_iff)

lemma find_None_Bex: "find P es = None \<Longrightarrow> \<not> (\<exists>e \<in> set es. P e)"
  by (auto simp: find_None_iff)

section \<open>The authorization checks, handler by handler\<close>

lemma getSectionLectures_auth:
  assumes "True \<notin> set (faults w)"
    and "find (\<lambda>s. section_id s = sectionId) (sections w) = Some sec"
    and "find (\<lambda>c. course_id c = section_course sec) (courses w) = Some c"
    and "\<not> course_published c"
  shows "status (fst (getSectionLectures sectionId req_user w)) =
     (if \<exists>u. req_user = Some u \<and> (course_instructor c = user_id u \<or> user_role u = ''admin'')
      then Success else Forbidden)"
  using assms
  by (auto simp: getSectionLectures_def getSectionLectures_try_def catch_error_def await_def ret_def
      Section_findById_def Lecture_find_def orm_resolved no_fault_rejects no_fault_tl envelopes
      split: option.splits)

lemma getLecture_auth:
  assumes "True \<notin> set (faults w)"
    and "find (\<lambda>l. lecture_id l = id') (lectures w) = Some lec"
    and "find (\<lambda>s. section_id s = lecture_section lec) (sections w) = Some sec"
    and "find (\<lambda>c. course_id c = section_course sec) (courses w) = Some c"
    and "\<not> course_published c \<or> \<not> lecture_isPreview lec"
  shows "status (fst (getLecture id' req_user w)) =
     (if (\<exists>u. req_user = Some u \<and> (course_instructor c = user_id u \<or> user_role u = ''admin'')) \<or>
         (\<exists>e \<in> set (enrollments w).
            Some (enrollment_user e) = map_option user_id req_user \<and>
            enrollment_course e = course_id c)
      then Success else Forbidden)"
proof (cases "find (\<lambda>e. Some (enrollment_user e) = map_option user_id req_user \<and>
            enrollment_course e = course_id c) (enrollments w)")
  case None
  then have "\<not> (\<exists>e \<in> set (enrollments w).
            Some (enrollment_user e) = map_option user_id req_user \<and>
            enrollment_course e = course_id c)"
    by (rule find_None_Bex)
  then show ?thesis
    using assms None
    by (auto simp: getLecture_def getLecture_try_def catch_error_def await_def ret_def Let_def
      Lecture_findById_def Enrollment_findOne_def orm_resolved no_fault_rejects no_fault_tl envelopes
      split: option.splits)
next
  case (Some e)
  then have "\<exists>e \<in> set (enrollments w).
            Some (enrollment_user e) = map_option user_id req_user \<and>
            enrollment_course e = course_id c"
    by (rule find_Some_Bex)
  then show ?thesis
    using assms Some
    by (auto simp: getLecture_def getLecture_try_def catch_error_def await_def ret_def Let_def
      Lecture_findById_def Enrollment_findOne_def orm_resolved no_fault_rejects no_fault_tl envelopes
      split: option.splits)
qed

lemma createLecture_auth:
  assumes "True \<notin> set (faults w)"
    and "find (\<lambda>s. section_id s = sectionId) (sections w) = Some sec"
    and "find (\<lambda>c. course_id c = section_course sec) (courses w) = Some c"
    and "createLectureSchema isUrl body = Inr b"
  shows "status (fst (createLecture isUrl sectionId body (Some u) new_id w)) =
     (if course_instructor c = user_id u \<or> user_role u = ''admin'' then Created else Forbidden)"
  using assms
  by (auto simp: createLecture_def createLecture_try_def catch_zod_error_def await_def ret_def
      Section_findById_def Lecture_findOne_def Lecture_create_def orm_resolved no_fault_rejects
      no_fault_tl envelopes split: option.splits)

lemma updateLecture_auth:
  assumes "True \<notin> set (faults w)"
    and "find (\<lambda>l. lecture_id l = id') (lectures w) = Some lec"
    and "find (\<lambda>s. section_id s = lecture_section lec) (sections w) = Some sec"
    and "find (\<lambda>c. course_id c = section_course sec) (courses w) = Some c"
    and "updateLectureSchema isUrl body = Inr b"
  shows "status (fst (updateLecture isUrl id' body (Some u) w)) =
     (if course_instructor c = user_id u \<or> user_role u = ''admin'' then Success else Forbidden)"
  using assms
  by (auto simp: updateLecture_def updateLecture_try_def catch_zod_error_def await_def ret_def Let_def
      Lecture_findById_def Lecture_save_def orm_resolved no_fault_rejects
      no_fault_tl envelopes)

lemma deleteLecture_auth:
  assumes "True \<notin> set (faults w)"
    and "find (\<lambda>l. lecture_id l = id') (lectures w) = Some lec"
    and "find (\<lambda>s. section_id s = lecture_section lec) (sections w) = Some sec"
    and "find (\<lambda>c. course_id c = section_course sec) (courses w) = Some c"
  shows "status (fst (deleteLecture id' (Some u) w)) =
     (if course_instructor c = user_id u \<or> user_role u = ''admin'' then Success else Forbidden)"
  using assms
  by (auto simp: deleteLecture_def deleteLecture_try_def catch_error_def await_def ret_def
      Lecture_findById_def Lecture_findByIdAndDelete_def orm_resolved no_fault_rejects
      no_fault_tl envelopes)

lemma reorderLectures_auth:
  assumes "True \<notin> set (faults w)"
    and "find (\<lambda>s. section_id s = sectionId) (sections w) = Some sec"
    and "find (\<lambda>c. course_id c = section_course sec) (courses w) = Some c"
    and "reorderSchema body = Inr lectureIds"
  shows "status (fst (reorderLectures sectionId body (Some u) w)) =
     (if course_instructor c = user_id u \<or> user_role u = ''admin'' then Success else Forbidden)"
  using assms
  by (auto simp: reorderLectures_def reorderLectures_try_def catch_zod_error_def await_def ret_def
      Section_findById_def Lecture_find_def Promise_all_updates_effect orm_resolved no_fault_rejects
      no_fault_tl no_fault_take no_fault_drop envelopes)

lemma hd_sort_desc:
  assumes "xs \<noteq> []"
  shows "\<exists>y ys. sort_key (\<lambda>l. - lecture_order l) xs = y # ys \<and>
                 lecture_order y = Max (lecture_order ` set xs)"
proof -
  let ?ys = "sort_key (\<lambda>l. - lecture_order l) xs"
  have ne: "?ys \<noteq> []" using assms by (metis length_sort list.size(3) length_0_conv)
  have srt: "sorted (map (\<lambda>l. - lecture_order l) ?ys)" by (rule sorted_sort_key)
  have st: "set ?ys = set xs" by simp
  obtain y ys where ys: "?ys = y # ys" using ne by (cases ?ys) auto
  have "y \<in> set xs" using st ys by auto
  moreover have "\<forall>x \<in> set xs. lecture_order x \<le> lecture_order y"
    using srt st unfolding ys by auto
  ultimately have "Max (lecture_order ` set xs) = lecture_order y"
    by (intro Max_eqI) auto
  then show ?thesis using ys by simp
qed

section \<open>The order and the preview flag of a created lecture\<close>

lemma ulp_small: "a < 9007199254740992 \<Longrightarrow> ulp a = 1"
  by (subst ulp.simps) simp

lemma ulp_at_2_53: "ulp 9007199254740992 = 2"
  by (subst ulp.simps) (simp add: ulp_small)

lemma ulp_past_2_53: "ulp 9007199254740993 = 2"
  by (subst ulp.simps) (simp add: ulp_small)

lemma to_double_exact:
  assumes "\<bar>n\<bar> \<le> 9007199254740992"
  shows "to_double n = n"
proof (cases "\<bar>n\<bar> = 9007199254740992")
  case True
  then have a: "nat \<bar>n\<bar> = 9007199254740992" by simp
  have "to_double n = sgn n * 9007199254740992"
    by (simp add: to_double_def Let_def a ulp_at_2_53)
  also have "\<dots> = sgn n * \<bar>n\<bar>" by (simp add: True)
  also have "\<dots> = n" by (simp add: mult_sgn_abs)
  finally show ?thesis .
next
  case False
  with assms have "nat \<bar>n\<bar> < 9007199254740992" by simp
  then have "to_double n = sgn n * int (nat \<bar>n\<bar>)"
    by (simp add: to_double_def Let_def ulp_small)
  also have "\<dots> = sgn n * \<bar>n\<bar>" by simp
  also have "\<dots> = n" by (simp add: mult_sgn_abs)
  finally show ?thesis .
qed

lemma to_double_rounds: "to_double 9007199254740993 = 9007199254740992"
  by (simp add: to_double_def Let_def ulp_past_2_53)

text \<open>
  Claim C9, as amended. A valid request by the course instructor or an admin to
  \<open>createLecture\<close>, on an existing section and with no call rejecting, creates a lecture.
  When the body has no \<open>order\<close>, the order of the created lecture is 0 when the section
  has no lectures, and otherwise the JavaScript sum of the largest order among the
  lectures of the section and 1: the double nearest to one more than the largest order,
  which is exactly one more than it whenever the largest order is below \<open>2^53\<close> in
  absolute value. When the body has no \<open>isPreview\<close>, the lecture is stored with
  \<open>isPreview\<close> false.
\<close>

theorem createLecture_default_order:
  assumes valid: "createLectureSchema isUrl (JObj kvs) = Inr b"
    and sec: "find (\<lambda>s. section_id s = sectionId) (sections w) = Some sec"
    and crs: "find (\<lambda>c. course_id c = section_course sec) (courses w) = Some c"
    and auth: "course_instructor c = user_id u \<or> user_role u = ''admin''"
    and nf: "True \<notin> set (faults w)"
  shows "\<exists>lec. fst (createLecture isUrl sectionId (JObj kvs) (Some u) new_id w) =
                  ApiResponse_created ''Lecture created successfully'' (PLecture lec) \<and>
          lectures (snd (createLecture isUrl sectionId (JObj kvs) (Some u) new_id w)) =
            lectures w @ [lec] \<and>
          (field kvs ''order'' = JUndefined \<longrightarrow>
             lecture_order lec =
               (if filter (\<lambda>l. lecture_section l = sectionId) (lectures w) = [] then 0
                else to_double
                       (Max (lecture_order `
                               set (filter (\<lambda>l. lecture_section l = sectionId) (lectures w))) + 1)) \<and>
             (filter (\<lambda>l. lecture_section l = sectionId) (lectures w) \<noteq> [] \<and>
              \<bar>Max (lecture_order `
                      set (filter (\<lambda>l. lecture_section l = sectionId) (lectures w)))\<bar>
                < 9007199254740992 \<longrightarrow>
                lecture_order lec =
                  Max (lecture_order `
                         set (filter (\<lambda>l. lecture_section l = sectionId) (lectures w))) + 1)) \<and>
          (field kvs ''isPreview'' = JUndefined \<longrightarrow> lecture_isPreview lec = False)"
proof -
  have b: "b = create_body_of kvs"
    using valid by (simp add: createLectureSchema_def Let_def split: if_splits)
  have ord: "field kvs ''order'' = JUndefined \<Longrightarrow> new_order b = None"
    by (simp add: b create_body_of_def opt_int_def)
  have prev: "field kvs ''isPreview'' = JUndefined \<Longrightarrow> new_isPreview b = None"
    by (simp add: b create_body_of_def opt_boolean_def)
  let ?xs = "filter (\<lambda>l. lecture_section l = sectionId) (lectures w)"
  note nf1 = no_fault_rejects[OF nf]
  note nf2 = no_fault_rejects[OF no_fault_tl[OF nf]]
  note nf3 = no_fault_rejects[OF no_fault_tl[OF no_fault_tl[OF nf]]]
  have mx: "?xs \<noteq> [] \<Longrightarrow> \<exists>y ys. sort_key (\<lambda>l. - lecture_order l) ?xs = y # ys \<and>
                 lecture_order y = Max (lecture_order ` set ?xs)"
    by (rule hd_sort_desc)
  have exact: "\<bar>Max (lecture_order ` set ?xs)\<bar> < 9007199254740992 \<Longrightarrow>
       to_double (Max (lecture_order ` set ?xs) + 1) = Max (lecture_order ` set ?xs) + 1"
    by (rule to_double_exact) simp
  show ?thesis
  proof (cases "new_order b")
    case None
    show ?thesis
    proof (cases "?xs = []")
      case True
      then show ?thesis
        using valid sec crs auth None prev nf1 nf2 nf3
        by (auto simp: createLecture_def createLecture_try_def catch_zod_error_def await_def ret_def
            Section_findById_def Lecture_findOne_def Lecture_create_def orm_resolved envelopes
            split: option.splits)
    next
      case False
      from mx[OF False] obtain y ys where
        ys: "sort_key (\<lambda>l. - lecture_order l) ?xs = y # ys"
        and my: "lecture_order y = Max (lecture_order ` set ?xs)"
        by blast
      show ?thesis
        using valid sec crs auth None prev nf1 nf2 nf3 False ys my exact
        by (auto simp: createLecture_def createLecture_try_def catch_zod_error_def await_def ret_def
            Section_findById_def Lecture_findOne_def Lecture_create_def orm_resolved envelopes
            split: option.splits)
    qed
  next
    case (Some n)
    then show ?thesis
      using valid sec crs auth ord prev nf1 nf2
      by (auto simp: createLecture_def createLecture_try_def catch_zod_error_def await_def ret_def
          Section_findById_def Lecture_create_def orm_resolved envelopes
          split: option.splits)
  qed
qed

theorem createLecture_default_order_witness:
  "(\<exists>lec. fst (createLecture (\<lambda>s. True) ''s1'' (JObj [(''title'', JStr ''Trees'')]) (Some teacher)
                   ''l9'' campus) =
            ApiResponse_created ''Lecture created successfully'' (PLecture lec) \<and>
          lecture_order lec = 5 \<and> lecture_isPreview lec = False) \<and>
   (\<exists>lec. fst (createLecture (\<lambda>s. True) ''s3'' (JObj [(''title'', JStr ''Trees'')]) (Some admin)
                   ''l9'' campus) =
            ApiResponse_created ''Lecture created successfully'' (PLecture lec) \<and>
          lecture_order lec = 0 \<and> lecture_isPreview lec = False)"
proof -
  have valid: "createLectureSchema (\<lambda>s. True) (JObj [(''title'', JStr ''Trees'')]) =
      Inr \<lparr> new_title = ''Trees'', new_videoUrl = None, new_duration = None,
            new_isPreview = None, new_order = None \<rparr>"
    by (simp add: createLectureSchema_def field_def z_string_min_def z_optional_def
        create_body_of_def opt_string_def opt_number_def opt_boolean_def opt_int_def)
  have nf: "True \<notin> set (faults campus)"
    by (simp add: campus_def)
  have s1: "find (\<lambda>s. section_id s = ''s1'') (sections campus) = Some draft_section"
    and s3: "find (\<lambda>s. section_id s = ''s3'') (sections campus) = Some empty_section"
    and c1: "find (\<lambda>c. course_id c = section_course draft_section) (courses campus) = Some draft_course"
    and c3: "find (\<lambda>c. course_id c = section_course empty_section) (courses campus) = Some draft_course"
    and a1: "course_instructor draft_course = user_id teacher \<or> user_role teacher = ''admin''"
    and a3: "course_instructor draft_course = user_id admin \<or> user_role admin = ''admin''"
    by (simp_all add: example_docs)
  have one: "\<exists>lec. fst (createLecture (\<lambda>s. True) ''s1'' (JObj [(''title'', JStr ''Trees'')])
                      (Some teacher) ''l9'' campus) =
            ApiResponse_created ''Lecture created successfully'' (PLecture lec) \<and>
          lecture_order lec = 5 \<and> lecture_isPreview lec = False"
    using createLecture_default_order [OF valid s1 c1 a1 nf, of "''l9''"]
    by (auto simp: example_docs field_def)
  have two: "\<exists>lec. fst (createLecture (\<lambda>s. True) ''s3'' (JObj [(''title'', JStr ''Trees'')])
                      (Some admin) ''l9'' campus) =
            ApiResponse_created ''Lecture created successfully'' (PLecture lec) \<and>
          lecture_order lec = 0 \<and> lecture_isPreview lec = False"
    using createLecture_default_order [OF valid s3 c3 a3 nf, of "''l9''"]
    by (auto simp: example_docs field_def)
  from one two show ?thesis by blast
qed

text \<open>
  The claim as stated fails where the sum rounds: with a lecture of the section at the
  order \<open>2^53\<close>, one more than the largest order is 9007199254740993, and the lecture is
  created at the order 9007199254740992.
\<close>

theorem createLecture_order_rounds_counterexample:
  "Max (lecture_order ` set (filter (\<lambda>l. lecture_section l = ''s1'') (lectures far_campus))) + 1 =
     9007199254740993 \<and>
   fst (createLecture (\<lambda>s. True) ''s1'' (JObj [(''title'', JStr ''Trees'')]) (Some teacher) ''l9''
          far_campus) =
     ApiResponse_created ''Lecture created successfully''
       (PLecture \<lparr> lecture_id = ''l9'', lecture_title = ''Trees'', lecture_section = ''s1'',
                   lecture_videoUrl = None, lecture_duration = None, lecture_isPreview = False,
                   lecture_order = 9007199254740992 \<rparr>)"
  by (simp add: createLecture_def createLecture_try_def catch_zod_error_def await_def ret_def
      Section_findById_def Lecture_findOne_def Lecture_create_def orm_def
      createLectureSchema_def field_def z_string_min_def z_optional_def create_body_of_def
      opt_string_def opt_number_def opt_boolean_def opt_int_def to_double_rounds
      ApiResponse_created_def far_campus_def example_docs)

section \<open>The wishlist check of a user without a wishlist\<close>

text \<open>
  Claim C10. \<open>checkWishlist\<close> answers with success whether or not the user has a
  wishlist. Without a wishlist document the \<open>isInWishlist\<close> of the answer is \<open>null\<close>,
  which is not the boolean \<open>false\<close>; with a wishlist document it is the boolean that
  tells whether the course is in the wishlist.
\<close>

theorem checkWishlist_null:
  assumes "\<not> rejects (faults w)"
  shows "(find (\<lambda>wl. wishlist_user wl = user_id u) (wishlists w) = None \<longrightarrow>
            fst (checkWishlist courseId (Some u) w) =
              ApiResponse_success ''Wishlist status checked'' (PIsInWishlist JNull)) \<and>
         (find (\<lambda>wl. wishlist_user wl = user_id u) (wishlists w) = Some wl \<longrightarrow>
            fst (checkWishlist courseId (Some u) w) =
              ApiResponse_success ''Wishlist status checked''
                (PIsInWishlist (JBool (courseId \<in> set (wishlist_courses wl)))))"
  using assms
  by (simp add: checkWishlist_def checkWishlist_try_def catch_error_def await_def ret_def
      Wishlist_findOne_def orm_resolved)

theorem checkWishlist_null_witness:
  "\<not> rejects (faults campus) \<and>
   find (\<lambda>wl. wishlist_user wl = user_id visitor) (wishlists campus) = None \<and>
   fst (checkWishlist ''c2'' (Some visitor) campus) =
     ApiResponse_success ''Wishlist status checked'' (PIsInWishlist JNull) \<and>
   fst (checkWishlist ''c2'' (Some student) campus) =
     ApiResponse_success ''Wishlist status checked'' (PIsInWishlist (JBool True)) \<and>
   fst (checkWishlist ''c1'' (Some student) campus) =
     ApiResponse_success ''Wishlist status checked'' (PIsInWishlist (JBool False))"
  using checkWishlist_null [where w = campus and u = visitor and courseId = "''c2''"]
    checkWishlist_null [where w = campus and u = student and courseId = "''c2''"
      and wl = "\<lparr> wishlist_id = ''w1'', wishlist_user = ''student'', wishlist_courses = [''c2''] \<rparr>"]
    checkWishlist_null [where w = campus and u = student and courseId = "''c1''"
      and wl = "\<lparr> wishlist_id = ''w1'', wishlist_user = ''student'', wishlist_courses = [''c2''] \<rparr>"]
  by (simp add: example_docs)

section \<open>The log of a request\<close>

lemma issued_append: "calls w' = calls w @ new \<Longrightarrow> issued w w' = new"
  by (simp add: issued_def)

lemma loggedI:
  "calls w' = calls w @ new \<Longrightarrow> writes new \<le> n \<Longrightarrow> stops_at_failure new \<Longrightarrow>
   (Rejected \<in> snd ` set new \<Longrightarrow> r = Inl DbError) \<Longrightarrow> logged n w (r, w')"
  by (simp add: logged_def issued_def)

lemma loggedD:
  assumes "logged n w (r, w')"
  shows "calls w' = calls w @ issued w w'" "writes (issued w w') \<le> n"
    "stops_at_failure (issued w w')" "Rejected \<in> snd ` set (issued w w') \<Longrightarrow> r = Inl DbError"
  using assms by (simp_all add: logged_def)

lemma tidy_ret: "tidy n (ret x)"
  by (simp add: tidy_def logged_def ret_def issued_def writes_def stops_at_failure_def)

lemma tidy_throw: "tidy n (throw e)"
  by (simp add: tidy_def logged_def throw_def issued_def writes_def stops_at_failure_def)

lemma tidy_orm_read: "\<not> mutating c \<Longrightarrow> tidy n (orm c f)"
  by (auto simp: tidy_def logged_def orm_def issued_def writes_def stops_at_failure_def
      split: prod.splits)

lemma tidy_orm_write: "tidy (Suc n) (orm c f)"
  by (auto simp: tidy_def logged_def orm_def issued_def writes_def stops_at_failure_def
      split: prod.splits)

lemma stops_at_failure_append:
  "Rejected \<notin> snd ` set xs \<Longrightarrow> stops_at_failure ys \<Longrightarrow> stops_at_failure (xs @ ys)"
  by (cases "ys = []") (auto simp: stops_at_failure_def butlast_append dest: in_set_butlastD)

lemma writes_append [simp]: "writes (xs @ ys) = writes xs + writes ys"
  by (simp add: writes_def)

lemma tidy_await:
  assumes m: "tidy a m" and k: "\<And>x. tidy b (k x)"
  shows "tidy (a + b) (await m k)"
  unfolding tidy_def
proof
  fix w
  obtain r w1 where mw: "m w = (r, w1)" by (cases "m w")
  from m have l1: "logged a w (r, w1)" by (simp add: tidy_def mw [symmetric])
  note d1 = loggedD [OF l1]
  show "logged (a + b) w (await m k w)"
  proof (cases r)
    case (Inl e)
    then have "await m k w = (Inl e, w1)" by (simp add: await_def mw)
    then show ?thesis using l1 Inl by (simp add: logged_def)
  next
    case (Inr x)
    obtain r2 w2 where kw: "k x w1 = (r2, w2)" by (cases "k x w1")
    from k have l2: "logged b w1 (r2, w2)" by (simp add: tidy_def kw [symmetric])
    note d2 = loggedD [OF l2]
    have aw: "await m k w = (r2, w2)" by (simp add: await_def mw Inr kw)
    have none: "Rejected \<notin> snd ` set (issued w w1)" using d1(4) Inr by auto
    have c: "calls w2 = calls w @ (issued w w1 @ issued w1 w2)"
      using d1(1) d2(1) by simp
    show ?thesis unfolding aw
    proof (rule loggedI [OF c])
      show "writes (issued w w1 @ issued w1 w2) \<le> a + b" using d1(2) d2(2) by simp
      show "stops_at_failure (issued w w1 @ issued w1 w2)"
        by (rule stops_at_failure_append [OF none d2(3)])
      show "r2 = Inl DbError" if "Rejected \<in> snd ` set (issued w w1 @ issued w1 w2)"
        using that none d2(4) by auto
    qed
  qed
qed

lemma tidy_read_then: "tidy 0 m \<Longrightarrow> (\<And>x. tidy n (k x)) \<Longrightarrow> tidy n (await m k)"
  using tidy_await [of 0 m n k] by simp

lemma tidy_write_then: "tidy (Suc 0) m \<Longrightarrow> (\<And>x. tidy n (k x)) \<Longrightarrow> tidy (Suc n) (await m k)"
  using tidy_await [of "Suc 0" m n k] by simp

lemma tidy_reads:
  "tidy 0 (Section_findById sectionId)"
  "tidy 0 (Course_findById courseId)"
  "tidy 0 (Lecture_find sectionId)"
  "tidy 0 (Lecture_findById id')"
  "tidy 0 (Lecture_findOne sectionId)"
  "tidy 0 (Enrollment_findOne userId courseId)"
  "tidy 0 (Wishlist_findOne uid)"
  "tidy 0 (Wishlist_findOne_populate uid)"
  "tidy 0 (Wishlist_findById id')"
  by (simp_all add: orm_calls tidy_orm_read)

lemma tidy_writes:
  "tidy (Suc 0) (Lecture_create lec)"
  "tidy (Suc 0) (Lecture_save lec)"
  "tidy (Suc 0) (Lecture_findByIdAndDelete id')"
  "tidy (Suc 0) (Wishlist_create wl)"
  "tidy (Suc 0) (Wishlist_save wl)"
  by (simp_all add: orm_calls tidy_orm_write)

lemmas tidy_steps =
  tidy_read_then [OF tidy_reads(1)] tidy_read_then [OF tidy_reads(2)]
  tidy_read_then [OF tidy_reads(3)] tidy_read_then [OF tidy_reads(4)]
  tidy_read_then [OF tidy_reads(5)] tidy_read_then [OF tidy_reads(6)]
  tidy_read_then [OF tidy_reads(7)] tidy_read_then [OF tidy_reads(8)]
  tidy_read_then [OF tidy_reads(9)]
  tidy_write_then [OF tidy_writes(1)] tidy_write_then [OF tidy_writes(2)]
  tidy_write_then [OF tidy_writes(3)] tidy_write_then [OF tidy_writes(4)]
  tidy_write_then [OF tidy_writes(5)]

lemma await_assoc: "await (await m f) k = await m (\<lambda>x. await (f x) k)"
  by (auto simp: await_def fun_eq_iff split: prod.splits sum.splits)

lemma await_case_option:
  "await (case x of None \<Rightarrow> a | Some y \<Rightarrow> b y) k =
     (case x of None \<Rightarrow> await a k | Some y \<Rightarrow> await (b y) k)"
  by (cases x) simp_all


lemma tidy_tries:
  "tidy (Suc 0) (getSectionLectures_try sectionId req_user)"
  "tidy (Suc 0) (getLecture_try id' req_user)"
  "tidy (Suc 0) (createLecture_try isUrl sectionId body req_user new_id)"
  "tidy (Suc 0) (updateLecture_try isUrl id' body req_user)"
  "tidy (Suc 0) (deleteLecture_try id' req_user)"
  "tidy (Suc 0) (getMyWishlist_try req_user)"
  "tidy (Suc 0) (addToWishlist_try body req_user new_id)"
  "tidy (Suc 0) (removeFromWishlist_try courseId req_user)"
  "tidy (Suc 0) (checkWishlist_try courseId req_user)"
  "tidy (Suc 0) (clearWishlist_try req_user)"
  by (auto simp: getSectionLectures_try_def getLecture_try_def createLecture_try_def
      updateLecture_try_def deleteLecture_try_def getMyWishlist_try_def addToWishlist_try_def
      removeFromWishlist_try_def checkWishlist_try_def clearWishlist_try_def Let_def
      await_assoc await_case_option
      intro!: tidy_steps tidy_ret tidy_throw split: option.splits sum.splits prod.splits)

section \<open>The order updates, lecture by lecture\<close>

lemma settle_id [simp]: "lecture_id (settle ps fs l) = lecture_id l"
  by (induction ps fs l rule: settle.induct) auto

lemma settle_section [simp]: "lecture_section (settle ps fs l) = lecture_section l"
  by (induction ps fs l rule: settle.induct) auto

lemma settle_order_only: "settle ps fs l = l\<lparr> lecture_order := lecture_order (settle ps fs l) \<rparr>"
  by (induction ps fs l rule: settle.induct) auto

lemma settle_unlisted: "lecture_id l \<notin> snd ` set ps \<Longrightarrow> settle ps fs l = l"
  by (induction ps fs l rule: settle.induct) auto

lemma snd_set_enumerate: "snd ` set (enumerate n xs) = set xs"
  by (induction xs arbitrary: n) auto

lemma settle_listed:
  "i < length ids \<Longrightarrow> \<not> rejects (drop i fs) \<Longrightarrow> ids ! i \<notin> set (drop (Suc i) ids) \<Longrightarrow>
   lecture_id l = ids ! i \<Longrightarrow> lecture_order (settle (enumerate n ids) fs l) = int (n + i)"
proof (induction ids arbitrary: i n fs l)
  case Nil
  then show ?case by simp
next
  case (Cons x xs)
  show ?case
  proof (cases i)
    case 0
    with Cons.prems have x: "lecture_id l = x" "x \<notin> set xs" "\<not> rejects fs" by auto
    have "settle (enumerate (Suc n) xs) (tl fs) (l\<lparr> lecture_order := int n \<rparr>) =
          l\<lparr> lecture_order := int n \<rparr>"
      by (rule settle_unlisted) (simp add: snd_set_enumerate x)
    then show ?thesis using x 0 by simp
  next
    case (Suc j)
    with Cons.prems have j: "j < length xs" "\<not> rejects (drop j (tl fs))"
      "xs ! j \<notin> set (drop (Suc j) xs)" "lecture_id l = xs ! j"
      by (auto simp: drop_Suc)
    let ?l = "if \<not> rejects fs \<and> lecture_id l = x then l\<lparr> lecture_order := int n \<rparr> else l"
    have "lecture_id ?l = xs ! j" using j by simp
    from Cons.IH [OF j(1) j(2) j(3) this, of "Suc n"]
    show ?thesis using Suc by simp
  qed
qed

lemma update_log_calls:
  "map fst (update_log ps fs) = map (\<lambda>(index, lectureId). LectureFindByIdAndUpdate lectureId (int index)) ps"
  by (induction ps fs rule: update_log.induct) auto

lemma update_log_writes: "writes (update_log ps fs) = length ps"
  by (induction ps fs rule: update_log.induct) (auto simp: writes_def)

lemma update_log_rejected:
  "(Rejected \<in> snd ` set (update_log ps fs)) = (True \<in> set (take (length ps) fs))"
proof (induction ps fs rule: update_log.induct)
  case (1 fs)
  show ?case by simp
next
  case (2 index lectureId rest fs)
  then show ?case by (cases fs) (auto simp: image_iff)
qed

lemma sorted_Lecture_find:
  "sorted (map lecture_order (sort_key lecture_order xs))"
  by (rule sorted_sort_key)

section \<open>The logs of the handlers\<close>

lemma catch_error_log:
  assumes "tidy n m"
  shows "calls (snd (catch_error msg m w)) = calls w @ issued w (snd (catch_error msg m w)) \<and>
         writes (issued w (snd (catch_error msg m w))) \<le> n \<and>
         stops_at_failure (issued w (snd (catch_error msg m w))) \<and>
         (Rejected \<in> snd ` set (issued w (snd (catch_error msg m w))) \<longrightarrow>
            fst (catch_error msg m w) = ApiResponse_serverError msg)"
proof -
  obtain r w' where mw: "m w = (r, w')" by (cases "m w")
  from assms have "logged n w (r, w')" by (simp add: tidy_def mw [symmetric])
  then show ?thesis
    by (cases r) (auto simp: catch_error_def mw logged_def)
qed

lemma catch_zod_error_log:
  assumes "tidy n m"
  shows "calls (snd (catch_zod_error msg m w)) = calls w @ issued w (snd (catch_zod_error msg m w)) \<and>
         writes (issued w (snd (catch_zod_error msg m w))) \<le> n \<and>
         stops_at_failure (issued w (snd (catch_zod_error msg m w))) \<and>
         (Rejected \<in> snd ` set (issued w (snd (catch_zod_error msg m w))) \<longrightarrow>
            fst (catch_zod_error msg m w) = ApiResponse_serverError msg)"
proof -
  obtain r w' where mw: "m w = (r, w')" by (cases "m w")
  from assms have "logged n w (r, w')" by (simp add: tidy_def mw [symmetric])
  then show ?thesis
    by (cases r) (auto simp: catch_zod_error_def mw logged_def split: exn.splits)
qed

lemma status_serverError [simp]: "status (ApiResponse_serverError msg) = ServerError"
  by (simp add: ApiResponse_serverError_def)

lemma controller_log:
  assumes "\<forall>sectionId body. req \<noteq> ReorderLectures sectionId body"
  shows "calls (snd (controller isUrl req u w)) = calls w @ issued w (snd (controller isUrl req u w)) \<and>
         writes (issued w (snd (controller isUrl req u w))) \<le> 1 \<and>
         stops_at_failure (issued w (snd (controller isUrl req u w))) \<and>
         (Rejected \<in> snd ` set (issued w (snd (controller isUrl req u w))) \<longrightarrow>
            status (fst (controller isUrl req u w)) = ServerError)"
proof (cases req)
  case (GetSectionLectures x1)
  then show ?thesis
    using catch_error_log [OF tidy_tries(1), of _ x1 u w]
    by (auto simp: getSectionLectures_def)
next
  case (GetLecture x2)
  then show ?thesis
    using catch_error_log [OF tidy_tries(2), of _ x2 u w]
    by (auto simp: getLecture_def)
next
  case (CreateLecture x31 x32 x33)
  then show ?thesis
    using catch_zod_error_log [OF tidy_tries(3), of _ isUrl x31 x32 u x33 w]
    by (auto simp: createLecture_def)
next
  case (UpdateLecture x41 x42)
  then show ?thesis
    using catch_zod_error_log [OF tidy_tries(4), of _ isUrl x41 x42 u w]
    by (auto simp: updateLecture_def)
next
  case (DeleteLecture x5)
  then show ?thesis
    using catch_error_log [OF tidy_tries(5), of _ x5 u w]
    by (auto simp: deleteLecture_def)
next
  case (ReorderLectures x61 x62)
  then show ?thesis using assms by simp
next
  case GetMyWishlist
  then show ?thesis
    using catch_error_log [OF tidy_tries(6), of _ u w]
    by (auto simp: getMyWishlist_def)
next
  case (AddToWishlist x81 x82)
  then show ?thesis
    using catch_zod_error_log [OF tidy_tries(7), of _ x81 u x82 w]
    by (auto simp: addToWishlist_def)
next
  case (RemoveFromWishlist x9)
  then show ?thesis
    using catch_error_log [OF tidy_tries(8), of _ x9 u w]
    by (auto simp: removeFromWishlist_def)
next
  case (CheckWishlist x10)
  then show ?thesis
    using catch_error_log [OF tidy_tries(9), of _ x10 u w]
    by (auto simp: checkWishlist_def)
next
  case ClearWishlist
  then show ?thesis
    using catch_error_log [OF tidy_tries(10), of _ u w]
    by (auto simp: clearWishlist_def)
qed

lemma reorderLectures_run:
  assumes valid: "reorderSchema body = Inr lectureIds"
    and sec: "find (\<lambda>s. section_id s = sectionId) (sections w) = Some sec"
    and crs: "find (\<lambda>c. course_id c = section_course sec) (courses w) = Some c"
    and auth: "course_instructor c = user_id u \<or> user_role u = ''admin''"
    and first: "\<not> rejects (faults w)"
  shows "reorderLectures sectionId body (Some u) w =
     (let w1 = w\<lparr> lectures := map (settle (enumerate 0 lectureIds) (tl (faults w))) (lectures w),
                   faults := drop (length lectureIds) (tl (faults w)),
                   calls := calls w @ (SectionFindById sectionId, Resolved) #
                              update_log (enumerate 0 lectureIds) (tl (faults w)) \<rparr>
      in if True \<in> set (take (length lectureIds) (tl (faults w)))
         then (ApiResponse_serverError ''Failed to reorder lectures'', w1)
         else if rejects (faults w1)
         then (ApiResponse_serverError ''Failed to reorder lectures'',
               w1\<lparr> faults := tl (faults w1), calls := calls w1 @ [(LectureFind sectionId, Rejected)] \<rparr>)
         else (ApiResponse_success ''Lectures reordered successfully''
                 (PLectures (sort_key lecture_order
                    (filter (\<lambda>l. lecture_section l = sectionId) (lectures w1)))),
               w1\<lparr> faults := tl (faults w1), calls := calls w1 @ [(LectureFind sectionId, Resolved)] \<rparr>))"
  using assms
  by (auto simp: reorderLectures_def reorderLectures_try_def catch_zod_error_def await_def ret_def
      Section_findById_def Lecture_find_def Promise_all_updates_effect orm_def Let_def)

lemma reorderLectures_log:
  "calls (snd (reorderLectures sectionId body u w)) =
     calls w @ issued w (snd (reorderLectures sectionId body u w)) \<and>
   (Rejected \<in> snd ` set (issued w (snd (reorderLectures sectionId body u w))) \<longrightarrow>
      status (fst (reorderLectures sectionId body u w)) = ServerError)"
  by (auto simp: reorderLectures_def reorderLectures_try_def catch_zod_error_def await_def ret_def
      throw_def Section_findById_def Lecture_find_def Promise_all_updates_effect orm_def Let_def
      issued_def update_log_rejected image_Un
      split: sum.splits option.splits)

lemma controller_failure:
  "Rejected \<in> snd ` set (issued w (snd (controller isUrl req u w))) \<Longrightarrow>
   status (fst (controller isUrl req u w)) = ServerError"
proof (cases "\<forall>sectionId body. req \<noteq> ReorderLectures sectionId body")
  case True
  assume "Rejected \<in> snd ` set (issued w (snd (controller isUrl req u w)))"
  with controller_log [OF True, of isUrl u w] show ?thesis by blast
next
  case False
  then obtain sectionId body where req: "req = ReorderLectures sectionId body" by blast
  assume "Rejected \<in> snd ` set (issued w (snd (controller isUrl req u w)))"
  with reorderLectures_log [of sectionId body u w] show ?thesis by (simp add: req)
qed

lemma writes_Nil [simp]: "writes [] = 0"
  by (simp add: writes_def)

lemma writes_Cons [simp]: "writes ((c, r) # cs) = (if mutating c then 1 else 0) + writes cs"
  by (simp add: writes_def)

lemma reorderLectures_writes:
  assumes valid: "reorderSchema body = Inr lectureIds"
    and sec: "find (\<lambda>s. section_id s = sectionId) (sections w) = Some sec"
    and crs: "find (\<lambda>c. course_id c = section_course sec) (courses w) = Some c"
    and auth: "course_instructor c = user_id u \<or> user_role u = ''admin''"
    and first: "\<not> rejects (faults w)"
  shows "writes (issued w (snd (reorderLectures sectionId body (Some u) w))) = length lectureIds"
  by (simp add: reorderLectures_run [OF assms] Let_def issued_def update_log_writes)

section \<open>Facts about the examples\<close>

lemma campus_facts:
  "True \<notin> set (faults campus)"
  "find (\<lambda>s. section_id s = ''s1'') (sections campus) = Some draft_section"
  "find (\<lambda>c. course_id c = section_course draft_section) (courses campus) = Some draft_course"
  "find (\<lambda>l. lecture_id l = ''l1'') (lectures campus) = Some lecture_one"
  "lecture_section lecture_one = ''s1''"
  "\<not> course_published draft_course"
  "course_instructor draft_course = user_id teacher \<or> user_role teacher = ''admin''"
  "\<not> rejects (faults campus)"
  by (simp_all add: example_docs)

lemma example_bodies:
  "createLectureSchema (\<lambda>s. True) (title_body ''Trees'') =
     Inr \<lparr> new_title = ''Trees'', new_videoUrl = None, new_duration = None,
           new_isPreview = None, new_order = None \<rparr>"
  "updateLectureSchema (\<lambda>s. True) (title_body ''Trees'') =
     Inr \<lparr> upd_title = Some ''Trees'', upd_videoUrl = None, upd_duration = None,
           upd_isPreview = None, upd_order = None \<rparr>"
  "reorderSchema (ids_body [''l2'', ''l1'']) = Inr [''l2'', ''l1'']"
  "reorderSchema (ids_body [''l3'', ''l1'']) = Inr [''l3'', ''l1'']"
  "addToWishlistSchema (course_body ''c1'') = Inr ''c1''"
  "addToWishlistSchema (course_body ''c2'') = Inr ''c2''"
  by (simp_all add: createLectureSchema_def updateLectureSchema_def reorderSchema_def
      addToWishlistSchema_def title_body_def ids_body_def course_body_def field_def
      z_string_min_def z_optional_def create_body_of_def update_body_of_def
      opt_string_def opt_number_def opt_boolean_def opt_int_def List.map_filter_def enumerate_eq_zip)

section \<open>Who passes the authorization check of the lecture controller\<close>

text \<open>
  Claim C1, as amended. Let the section (for the handlers that take a lecture id: the
  section of the lecture) and its course exist and let no call reject. In
  \<open>getSectionLectures\<close> on an unpublished course a request passes the check exactly when
  its user is the instructor of the course or has the role admin, and any other request,
  one without a user included, is answered with forbidden. In \<open>createLecture\<close>,
  \<open>updateLecture\<close>, \<open>deleteLecture\<close> and \<open>reorderLectures\<close>, which read the user of the
  request without a guard, a request with a valid body passes exactly when its user is the
  instructor or an admin and is answered with forbidden otherwise. In \<open>getLecture\<close> on an
  unpublished course or a lecture that is no preview the check is wider: a request passes
  when its user is the instructor, an admin, or enrolled in the course, and is answered
  with forbidden otherwise.
\<close>

theorem authorization_check:
  assumes nf: "True \<notin> set (faults w)"
    and sec: "find (\<lambda>s. section_id s = sectionId) (sections w) = Some sec"
    and crs: "find (\<lambda>c. course_id c = section_course sec) (courses w) = Some c"
  shows
    "(\<not> course_published c \<longrightarrow>
        status (fst (getSectionLectures sectionId req_user w)) =
          (if \<exists>r. req_user = Some r \<and> (course_instructor c = user_id r \<or> user_role r = ''admin'')
           then Success else Forbidden)) \<and>
     (createLectureSchema isUrl cbody = Inr nb \<longrightarrow>
        status (fst (createLecture isUrl sectionId cbody (Some u) new_id w)) =
          (if course_instructor c = user_id u \<or> user_role u = ''admin''
           then Created else Forbidden)) \<and>
     (reorderSchema rbody = Inr lectureIds \<longrightarrow>
        status (fst (reorderLectures sectionId rbody (Some u) w)) =
          (if course_instructor c = user_id u \<or> user_role u = ''admin''
           then Success else Forbidden)) \<and>
     (find (\<lambda>l. lecture_id l = id') (lectures w) = Some lec \<and> lecture_section lec = sectionId \<longrightarrow>
        (\<not> course_published c \<or> \<not> lecture_isPreview lec \<longrightarrow>
           status (fst (getLecture id' req_user w)) =
             (if (\<exists>r. req_user = Some r \<and>
                      (course_instructor c = user_id r \<or> user_role r = ''admin'')) \<or>
                 (\<exists>e \<in> set (enrollments w).
                    Some (enrollment_user e) = map_option user_id req_user \<and>
                    enrollment_course e = course_id c)
              then Success else Forbidden)) \<and>
        (updateLectureSchema isUrl ubody = Inr ub \<longrightarrow>
           status (fst (updateLecture isUrl id' ubody (Some u) w)) =
             (if course_instructor c = user_id u \<or> user_role u = ''admin''
              then Success else Forbidden)) \<and>
        status (fst (deleteLecture id' (Some u) w)) =
          (if course_instructor c = user_id u \<or> user_role u = ''admin''
           then Success else Forbidden))"
proof (intro conjI impI)
  assume "\<not> course_published c"
  then show "status (fst (getSectionLectures sectionId req_user w)) =
          (if \<exists>r. req_user = Some r \<and> (course_instructor c = user_id r \<or> user_role r = ''admin'')
           then Success else Forbidden)"
    by (rule getSectionLectures_auth [OF nf sec crs])
next
  assume "createLectureSchema isUrl cbody = Inr nb"
  then show "status (fst (createLecture isUrl sectionId cbody (Some u) new_id w)) =
          (if course_instructor c = user_id u \<or> user_role u = ''admin''
           then Created else Forbidden)"
    by (rule createLecture_auth [OF nf sec crs])
next
  assume "reorderSchema rbody = Inr lectureIds"
  then show "status (fst (reorderLectures sectionId rbody (Some u) w)) =
          (if course_instructor c = user_id u \<or> user_role u = ''admin''
           then Success else Forbidden)"
    by (rule reorderLectures_auth [OF nf sec crs])
next
  assume l: "find (\<lambda>l. lecture_id l = id') (lectures w) = Some lec \<and> lecture_section lec = sectionId"
    and p: "\<not> course_published c \<or> \<not> lecture_isPreview lec"
  from l sec have s: "find (\<lambda>s. section_id s = lecture_section lec) (sections w) = Some sec"
    by simp
  from l have f: "find (\<lambda>l. lecture_id l = id') (lectures w) = Some lec" by simp
  show "status (fst (getLecture id' req_user w)) =
             (if (\<exists>r. req_user = Some r \<and>
                      (course_instructor c = user_id r \<or> user_role r = ''admin'')) \<or>
                 (\<exists>e \<in> set (enrollments w).
                    Some (enrollment_user e) = map_option user_id req_user \<and>
                    enrollment_course e = course_id c)
              then Success else Forbidden)"
    by (rule getLecture_auth [OF nf f s crs p])
next
  assume l: "find (\<lambda>l. lecture_id l = id') (lectures w) = Some lec \<and> lecture_section lec = sectionId"
    and v: "updateLectureSchema isUrl ubody = Inr ub"
  from l sec have s: "find (\<lambda>s. section_id s = lecture_section lec) (sections w) = Some sec"
    by simp
  from l have f: "find (\<lambda>l. lecture_id l = id') (lectures w) = Some lec" by simp
  show "status (fst (updateLecture isUrl id' ubody (Some u) w)) =
             (if course_instructor c = user_id u \<or> user_role u = ''admin''
              then Success else Forbidden)"
    by (rule updateLecture_auth [OF nf f s crs v])
next
  assume l: "find (\<lambda>l. lecture_id l = id') (lectures w) = Some lec \<and> lecture_section lec = sectionId"
  from l sec have s: "find (\<lambda>s. section_id s = lecture_section lec) (sections w) = Some sec"
    by simp
  from l have f: "find (\<lambda>l. lecture_id l = id') (lectures w) = Some lec" by simp
  show "status (fst (deleteLecture id' (Some u) w)) =
          (if course_instructor c = user_id u \<or> user_role u = ''admin''
           then Success else Forbidden)"
    by (rule deleteLecture_auth [OF nf f s crs])
qed

theorem authorization_check_witness:
  "status (fst (getSectionLectures ''s1'' (Some teacher) campus)) = Success \<and>
   status (fst (getSectionLectures ''s1'' (Some visitor) campus)) = Forbidden \<and>
   status (fst (getSectionLectures ''s1'' None campus)) = Forbidden \<and>
   status (fst (createLecture (\<lambda>s. True) ''s1'' (title_body ''Trees'') (Some admin) ''l9'' campus)) = Created \<and>
   status (fst (createLecture (\<lambda>s. True) ''s1'' (title_body ''Trees'') (Some student) ''l9'' campus)) = Forbidden \<and>
   status (fst (reorderLectures ''s1'' (ids_body [''l2'', ''l1'']) (Some teacher) campus)) = Success \<and>
   status (fst (reorderLectures ''s1'' (ids_body [''l2'', ''l1'']) (Some student) campus)) = Forbidden \<and>
   status (fst (getLecture ''l1'' (Some teacher) campus)) = Success \<and>
   status (fst (getLecture ''l1'' (Some student) campus)) = Success \<and>
   status (fst (getLecture ''l1'' (Some visitor) campus)) = Forbidden \<and>
   status (fst (getLecture ''l1'' None campus)) = Forbidden \<and>
   status (fst (updateLecture (\<lambda>s. True) ''l1'' (title_body ''Trees'') (Some teacher) campus)) = Success \<and>
   status (fst (updateLecture (\<lambda>s. True) ''l1'' (title_body ''Trees'') (Some student) campus)) = Forbidden \<and>
   status (fst (deleteLecture ''l1'' (Some admin) campus)) = Success \<and>
   status (fst (deleteLecture ''l1'' (Some student) campus)) = Forbidden"
proof -
  note inst = authorization_check [OF campus_facts(1-3), where isUrl = "\<lambda>s. True"
      and cbody = "title_body ''Trees''" and ubody = "title_body ''Trees''"
      and rbody = "ids_body [''l2'', ''l1'']" and id' = "''l1''" and lec = lecture_one
      and new_id = "''l9''", unfolded example_bodies]
  show ?thesis
    using inst [where req_user = "Some teacher" and u = teacher]
      inst [where req_user = "Some visitor" and u = admin]
      inst [where req_user = "Some student" and u = student]
      inst [where req_user = None and u = student]
    by (simp add: example_docs)
qed

text \<open>
  The claim as stated fails on \<open>getLecture\<close>: a student who is neither the instructor nor
  an admin, but is enrolled in the unpublished course, receives the lecture.
\<close>

theorem getLecture_enrolled_counterexample:
  "\<not> course_published draft_course \<and>
   course_instructor draft_course \<noteq> user_id student \<and>
   user_role student \<noteq> ''admin'' \<and>
   fst (getLecture ''l1'' (Some student) campus) =
     ApiResponse_success ''Lecture fetched successfully''
       (PLecturePopulated (PopulatedLecture lecture_one draft_section draft_course))"
  by (simp add: getLecture_def getLecture_try_def catch_error_def await_def ret_def Let_def
      Lecture_findById_def Enrollment_findOne_def orm_def example_docs)

section \<open>The enrollment router is gated\<close>

text \<open>
  Claim C6. Whatever \<open>authenticate\<close> is: a request it rejects is answered by it and
  reaches no controller of the enrollment router, and a request that reaches a controller
  is the request as \<open>authenticate\<close> passed it on. A request that reaches
  \<open>getCourseEnrollments\<close>, the listing of a course's enrollments, carries moreover a user
  whose role is instructor or admin.
\<close>

theorem enrollmentRouter_gated:
  "(authenticate req = Inl r \<longrightarrow> route (enrollmentRouter authenticate denied) req = Replied r) \<and>
   (route (enrollmentRouter authenticate denied) req = Reached c req' \<longrightarrow>
      authenticate req = Inr req' \<and>
      (c = getCourseEnrollments \<longrightarrow>
         (\<exists>u. request_user req' = Some u \<and>
              (user_role u = ''instructor'' \<or> user_role u = ''admin''))))"
  by (auto simp: enrollmentRouter_def authorize_def split: sum.splits if_splits option.splits)

theorem enrollmentRouter_gated_witness:
  "session_auth \<lparr> request_method = GET, request_path = [''my''], request_user = None \<rparr> = Inl ''login'' \<and>
   route (enrollmentRouter session_auth ''denied'')
     \<lparr> request_method = GET, request_path = [''my''], request_user = None \<rparr> = Replied ''login'' \<and>
   route (enrollmentRouter session_auth ''denied'')
     \<lparr> request_method = GET, request_path = [''course'', ''c1''], request_user = Some teacher \<rparr> =
     Reached getCourseEnrollments
       \<lparr> request_method = GET, request_path = [''course'', ''c1''], request_user = Some teacher \<rparr> \<and>
   session_auth \<lparr> request_method = GET, request_path = [''course'', ''c1''], request_user = Some teacher \<rparr> =
     Inr \<lparr> request_method = GET, request_path = [''course'', ''c1''], request_user = Some teacher \<rparr> \<and>
   user_role teacher = ''instructor'' \<and>
   route (enrollmentRouter session_auth ''denied'')
     \<lparr> request_method = GET, request_path = [''course'', ''c1''], request_user = Some student \<rparr> =
     Replied ''denied''"
  using enrollmentRouter_gated [where authenticate = session_auth and denied = "''denied''"
      and req = "\<lparr> request_method = GET, request_path = [''my''], request_user = None \<rparr>"
      and r = "''login''"]
    enrollmentRouter_gated [where authenticate = session_auth and denied = "''denied''"
      and req = "\<lparr> request_method = GET, request_path = [''course'', ''c1''], request_user = Some teacher \<rparr>"
      and req' = "\<lparr> request_method = GET, request_path = [''course'', ''c1''], request_user = Some teacher \<rparr>"
      and c = getCourseEnrollments]
  by (simp add: session_auth_def enrollmentRouter_def authorize_def teacher_def student_def)

section \<open>How many writes a request makes\<close>

text \<open>
  Claim C5, as amended. Every request to a handler other than \<open>reorderLectures\<close> issues
  at most one mutating call (a create, a save, an update or a delete). A valid request to
  \<open>reorderLectures\<close> by the course instructor or an admin, on an existing section whose
  lookup resolves, issues one update per lecture id of the submitted array: a batch of
  as many mutating calls as the array is long.
\<close>

theorem writes_per_request:
  "((\<forall>sectionId body. req \<noteq> ReorderLectures sectionId body) \<longrightarrow>
      writes (issued w (snd (controller isUrl req req_user w))) \<le> 1) \<and>
   (reorderSchema body = Inr lectureIds \<and>
    find (\<lambda>s. section_id s = sectionId) (sections w) = Some sec \<and>
    find (\<lambda>c. course_id c = section_course sec) (courses w) = Some c \<and>
    (course_instructor c = user_id u \<or> user_role u = ''admin'') \<and>
    \<not> rejects (faults w) \<longrightarrow>
      writes (issued w (snd (reorderLectures sectionId body (Some u) w))) = length lectureIds)"
  using controller_log [of req isUrl req_user w] reorderLectures_writes [of body lectureIds sectionId w sec c u]
  by blast

theorem writes_per_request_witness:
  "writes (issued campus
     (snd (controller (\<lambda>s. True) (AddToWishlist (course_body ''c1'') ''w9'') (Some student) campus))) \<le> 1 \<and>
   writes (issued campus
     (snd (reorderLectures ''s1'' (ids_body [''l2'', ''l1'']) (Some teacher) campus))) = 2"
  using writes_per_request [where req = "AddToWishlist (course_body ''c1'') ''w9''"
      and isUrl = "\<lambda>s. True" and req_user = "Some student" and w = campus
      and body = "ids_body [''l2'', ''l1'']" and lectureIds = "[''l2'', ''l1'']"
      and sectionId = "''s1''" and sec = draft_section and c = draft_course and u = teacher]
    example_bodies(3) campus_facts(2,3,7,8)
  by simp

text \<open>
  The claim as stated fails on \<open>reorderLectures\<close>: a request listing two lecture ids
  issues two mutating calls.
\<close>

theorem reorderLectures_batch_counterexample:
  "writes (issued campus
     (snd (controller (\<lambda>s. True) (ReorderLectures ''s1'' (ids_body [''l2'', ''l1'']))
             (Some teacher) campus))) = 2"
  using reorderLectures_writes [OF example_bodies(3) campus_facts(2,3,7,8)]
  by simp

section \<open>What a reorder request rewrites and what it returns\<close>

text \<open>
  Claim C8. Consider a valid request to \<open>reorderLectures\<close> by the course instructor or an
  admin, on an existing section and with no call rejecting. Every lecture of the database
  is kept, with at most its order changed: a lecture whose id is not in the submitted
  array is left as it is, and a lecture whose id is \<open>lectureIds[i]\<close> receives the order
  \<open>i\<close> (when an id is listed more than once, its last place counts). Nothing in this
  depends on the section of the lecture, so a listed lecture of another section is
  rewritten as well. The answer is success, and its data are the lectures of the named
  section only, as they are after the updates, sorted by ascending order.
\<close>

theorem reorderLectures_effect:
  assumes valid: "reorderSchema body = Inr lectureIds"
    and sec: "find (\<lambda>s. section_id s = sectionId) (sections w) = Some sec"
    and crs: "find (\<lambda>c. course_id c = section_course sec) (courses w) = Some c"
    and auth: "course_instructor c = user_id u \<or> user_role u = ''admin''"
    and nf: "True \<notin> set (faults w)"
  shows "\<exists>f listed.
           lectures (snd (reorderLectures sectionId body (Some u) w)) = map f (lectures w) \<and>
           (\<forall>l. f l = l\<lparr> lecture_order := lecture_order (f l) \<rparr> \<and>
                (lecture_id l \<notin> set lectureIds \<longrightarrow> f l = l) \<and>
                (\<forall>i < length lectureIds.
                   lecture_id l = lectureIds ! i \<and> lectureIds ! i \<notin> set (drop (Suc i) lectureIds) \<longrightarrow>
                   lecture_order (f l) = int i)) \<and>
           fst (reorderLectures sectionId body (Some u) w) =
             ApiResponse_success ''Lectures reordered successfully'' (PLectures listed) \<and>
           listed = sort_key lecture_order
                      (filter (\<lambda>l. lecture_section l = sectionId) (map f (lectures w))) \<and>
           sorted (map lecture_order listed) \<and>
           set listed = {l \<in> f ` set (lectures w). lecture_section l = sectionId}"
proof -
  let ?ps = "enumerate 0 lectureIds"
  let ?f = "settle ?ps (tl (faults w))"
  let ?listed = "sort_key lecture_order (filter (\<lambda>l. lecture_section l = sectionId) (map ?f (lectures w)))"
  have nf1: "\<not> rejects (faults w)" by (rule no_fault_rejects [OF nf])
  have nf2: "True \<notin> set (take (length lectureIds) (tl (faults w)))"
    by (rule no_fault_take [OF no_fault_tl [OF nf]])
  have nf3: "\<not> rejects (drop (length lectureIds) (tl (faults w)))"
    by (rule no_fault_rejects [OF no_fault_drop [OF no_fault_tl [OF nf]]])
  have run: "reorderLectures sectionId body (Some u) w =
      (ApiResponse_success ''Lectures reordered successfully'' (PLectures ?listed),
       w\<lparr> lectures := map ?f (lectures w),
          faults := tl (drop (length lectureIds) (tl (faults w))),
          calls := calls w @ (SectionFindById sectionId, Resolved) #
                     update_log ?ps (tl (faults w)) @ [(LectureFind sectionId, Resolved)] \<rparr>)"
    using valid sec crs auth nf1 nf2 nf3
    by (auto simp: reorderLectures_def reorderLectures_try_def catch_zod_error_def await_def ret_def
        Section_findById_def Lecture_find_def Promise_all_updates_effect orm_resolved)
  have fprops: "\<forall>l. ?f l = l\<lparr> lecture_order := lecture_order (?f l) \<rparr> \<and>
                (lecture_id l \<notin> set lectureIds \<longrightarrow> ?f l = l) \<and>
                (\<forall>i < length lectureIds.
                   lecture_id l = lectureIds ! i \<and> lectureIds ! i \<notin> set (drop (Suc i) lectureIds) \<longrightarrow>
                   lecture_order (?f l) = int i)"
  proof (intro allI conjI impI)
    fix l :: lecture
    show "?f l = l\<lparr> lecture_order := lecture_order (?f l) \<rparr>" by (rule settle_order_only)
  next
    fix l :: lecture assume "lecture_id l \<notin> set lectureIds"
    then show "?f l = l" by (intro settle_unlisted) (simp add: snd_set_enumerate)
  next
    fix l :: lecture and i assume i: "i < length lectureIds"
      and l: "lecture_id l = lectureIds ! i \<and> lectureIds ! i \<notin> set (drop (Suc i) lectureIds)"
    have "\<not> rejects (drop i (tl (faults w)))"
      by (rule no_fault_rejects [OF no_fault_drop [OF no_fault_tl [OF nf]]])
    from settle_listed [OF i this, of l 0] l show "lecture_order (?f l) = int i" by simp
  qed
  have "sorted (map lecture_order ?listed)" by (rule sorted_sort_key)
  moreover have "set ?listed = {l \<in> ?f ` set (lectures w). lecture_section l = sectionId}"
    by auto
  ultimately show ?thesis using run fprops
    by (intro exI [of _ ?f] exI [of _ ?listed]) simp
qed

theorem reorderLectures_effect_witness:
  "lecture_section lecture_three \<noteq> ''s1'' \<and>
   lectures (snd (reorderLectures ''s1'' (ids_body [''l3'', ''l1'']) (Some teacher) campus)) =
     [lecture_one\<lparr> lecture_order := 1 \<rparr>, lecture_two, lecture_three\<lparr> lecture_order := 0 \<rparr>] \<and>
   fst (reorderLectures ''s1'' (ids_body [''l3'', ''l1'']) (Some teacher) campus) =
     ApiResponse_success ''Lectures reordered successfully''
       (PLectures [lecture_one\<lparr> lecture_order := 1 \<rparr>, lecture_two])"
proof -
  from reorderLectures_effect [OF example_bodies(4) campus_facts(2,3,7,1)]
  obtain f listed where
    ls: "lectures (snd (reorderLectures ''s1'' (ids_body [''l3'', ''l1'']) (Some teacher) campus)) =
           map f (lectures campus)"
    and f: "\<forall>l. f l = l\<lparr> lecture_order := lecture_order (f l) \<rparr> \<and>
                (lecture_id l \<notin> set [''l3'', ''l1''] \<longrightarrow> f l = l) \<and>
                (\<forall>i < length [''l3'', ''l1''].
                   lecture_id l = [''l3'', ''l1''] ! i \<and>
                   [''l3'', ''l1''] ! i \<notin> set (drop (Suc i) [''l3'', ''l1'']) \<longrightarrow>
                   lecture_order (f l) = int i)"
    and resp: "fst (reorderLectures ''s1'' (ids_body [''l3'', ''l1'']) (Some teacher) campus) =
             ApiResponse_success ''Lectures reordered successfully'' (PLectures listed)"
    and listed: "listed = sort_key lecture_order
                      (filter (\<lambda>l. lecture_section l = ''s1'') (map f (lectures campus)))"
    by blast
  from f have "lecture_id lecture_two \<notin> set [''l3'', ''l1''] \<longrightarrow> f lecture_two = lecture_two"
    by blast
  then have two: "f lecture_two = lecture_two" by (simp add: lecture_two_def)
  from f have "\<forall>i < length [''l3'', ''l1''].
                   lecture_id lecture_three = [''l3'', ''l1''] ! i \<and>
                   [''l3'', ''l1''] ! i \<notin> set (drop (Suc i) [''l3'', ''l1'']) \<longrightarrow>
                   lecture_order (f lecture_three) = int i"
    by blast
  from this [rule_format, of 0] have "lecture_order (f lecture_three) = 0"
    by (simp add: lecture_three_def)
  moreover from f have "f lecture_three = lecture_three\<lparr> lecture_order := lecture_order (f lecture_three) \<rparr>"
    by blast
  ultimately have three: "f lecture_three = lecture_three\<lparr> lecture_order := 0 \<rparr>" by simp
  from f have "\<forall>i < length [''l3'', ''l1''].
                   lecture_id lecture_one = [''l3'', ''l1''] ! i \<and>
                   [''l3'', ''l1''] ! i \<notin> set (drop (Suc i) [''l3'', ''l1'']) \<longrightarrow>
                   lecture_order (f lecture_one) = int i"
    by blast
  from this [rule_format, of 1] have "lecture_order (f lecture_one) = 1"
    by (simp add: lecture_one_def)
  moreover from f have "f lecture_one = lecture_one\<lparr> lecture_order := lecture_order (f lecture_one) \<rparr>"
    by blast
  ultimately have one: "f lecture_one = lecture_one\<lparr> lecture_order := 1 \<rparr>" by simp
  have "lectures campus = [lecture_one, lecture_two, lecture_three]" by (simp add: campus_def)
  with ls resp listed one two three show ?thesis
    by (simp add: lecture_one_def lecture_two_def lecture_three_def)
qed

section \<open>A failure in the middle of a request\<close>

lemma reorderLectures_partial:
  assumes valid: "reorderSchema body = Inr lectureIds"
    and sec: "find (\<lambda>s. section_id s = sectionId) (sections w) = Some sec"
    and crs: "find (\<lambda>c. course_id c = section_course sec) (courses w) = Some c"
    and auth: "course_instructor c = user_id u \<or> user_role u = ''admin''"
    and first: "\<not> rejects (faults w)"
    and later: "True \<in> set (take (length lectureIds) (tl (faults w)))"
  shows "fst (reorderLectures sectionId body (Some u) w) =
           ApiResponse_serverError ''Failed to reorder lectures'' \<and>
         map fst (issued w (snd (reorderLectures sectionId body (Some u) w))) =
           SectionFindById sectionId #
           map (\<lambda>(index, lectureId). LectureFindByIdAndUpdate lectureId (int index))
             (enumerate 0 lectureIds) \<and>
         (\<exists>f. lectures (snd (reorderLectures sectionId body (Some u) w)) = map f (lectures w) \<and>
              (\<forall>l. \<forall>i < length lectureIds.
                 lecture_id l = lectureIds ! i \<and>
                 lectureIds ! i \<notin> set (drop (Suc i) lectureIds) \<and>
                 \<not> rejects (drop (Suc i) (faults w)) \<longrightarrow>
                 lecture_order (f l) = int i))"
proof -
  let ?f = "settle (enumerate 0 lectureIds) (tl (faults w))"
  have run: "reorderLectures sectionId body (Some u) w =
      (ApiResponse_serverError ''Failed to reorder lectures'',
       w\<lparr> lectures := map ?f (lectures w),
          faults := drop (length lectureIds) (tl (faults w)),
          calls := calls w @ (SectionFindById sectionId, Resolved) #
                     update_log (enumerate 0 lectureIds) (tl (faults w)) \<rparr>)"
    using later by (simp add: reorderLectures_run [OF valid sec crs auth first] Let_def)
  have "\<forall>l. \<forall>i < length lectureIds.
                 lecture_id l = lectureIds ! i \<and>
                 lectureIds ! i \<notin> set (drop (Suc i) lectureIds) \<and>
                 \<not> rejects (drop (Suc i) (faults w)) \<longrightarrow>
                 lecture_order (?f l) = int i"
  proof (intro allI impI)
    fix l :: lecture and i
    assume i: "i < length lectureIds"
      and h: "lecture_id l = lectureIds ! i \<and>
                 lectureIds ! i \<notin> set (drop (Suc i) lectureIds) \<and>
                 \<not> rejects (drop (Suc i) (faults w))"
    then have "\<not> rejects (drop i (tl (faults w)))" by (simp add: drop_Suc)
    from settle_listed [OF i this, of l 0] h show "lecture_order (?f l) = int i" by simp
  qed
  then have "\<exists>f. lectures (snd (reorderLectures sectionId body (Some u) w)) = map f (lectures w) \<and>
              (\<forall>l. \<forall>i < length lectureIds.
                 lecture_id l = lectureIds ! i \<and>
                 lectureIds ! i \<notin> set (drop (Suc i) lectureIds) \<and>
                 \<not> rejects (drop (Suc i) (faults w)) \<longrightarrow>
                 lecture_order (f l) = int i)"
    by (intro exI [of _ ?f]) (simp add: run)
  moreover have "fst (reorderLectures sectionId body (Some u) w) =
           ApiResponse_serverError ''Failed to reorder lectures''"
    by (simp add: run)
  moreover have "map fst (issued w (snd (reorderLectures sectionId body (Some u) w))) =
           SectionFindById sectionId #
           map (\<lambda>(index, lectureId). LectureFindByIdAndUpdate lectureId (int index))
             (enumerate 0 lectureIds)"
    by (simp add: run issued_def update_log_calls)
  ultimately show ?thesis by blast
qed

text \<open>
  Claim C4. No handler retries a call or undoes a write. A request to a handler other
  than \<open>reorderLectures\<close> issues no call after a call that rejected, and every request one
  of whose calls rejected is answered with the server error. When in a valid, authorized
  request to \<open>reorderLectures\<close> one of the order updates rejects, the answer is the server
  error of the handler; the calls of the request are the lookup of the section and one
  update per submitted id, each issued once and nothing after them; and the updates that
  resolved stay applied: a lecture whose id is \<open>lectureIds[i]\<close> (listed there for the last
  time) and whose update resolved has the order \<open>i\<close> in the world the request leaves.
\<close>

theorem no_retry_no_rollback:
  "((\<forall>sectionId body. req \<noteq> ReorderLectures sectionId body) \<longrightarrow>
      stops_at_failure (issued w (snd (controller isUrl req req_user w)))) \<and>
   (Rejected \<in> snd ` set (issued w (snd (controller isUrl req req_user w))) \<longrightarrow>
      status (fst (controller isUrl req req_user w)) = ServerError) \<and>
   (reorderSchema body = Inr lectureIds \<and>
    find (\<lambda>s. section_id s = sectionId) (sections w) = Some sec \<and>
    find (\<lambda>c. course_id c = section_course sec) (courses w) = Some c \<and>
    (course_instructor c = user_id u \<or> user_role u = ''admin'') \<and>
    \<not> rejects (faults w) \<and>
    True \<in> set (take (length lectureIds) (tl (faults w))) \<longrightarrow>
      fst (reorderLectures sectionId body (Some u) w) =
        ApiResponse_serverError ''Failed to reorder lectures'' \<and>
      map fst (issued w (snd (reorderLectures sectionId body (Some u) w))) =
        SectionFindById sectionId #
        map (\<lambda>(index, lectureId). LectureFindByIdAndUpdate lectureId (int index))
          (enumerate 0 lectureIds) \<and>
      (\<exists>f. lectures (snd (reorderLectures sectionId body (Some u) w)) = map f (lectures w) \<and>
           (\<forall>l. \<forall>i < length lectureIds.
              lecture_id l = lectureIds ! i \<and>
              lectureIds ! i \<notin> set (drop (Suc i) lectureIds) \<and>
              \<not> rejects (drop (Suc i) (faults w)) \<longrightarrow>
              lecture_order (f l) = int i)))"
  using controller_log [of req isUrl req_user w] controller_failure [of w isUrl req req_user]
    reorderLectures_partial [of body lectureIds sectionId w sec c u]
  by blast

theorem no_retry_no_rollback_witness:
  "Rejected \<in> snd ` set (issued (campus\<lparr> faults := [False, False, True] \<rparr>)
     (snd (controller (\<lambda>s. True) (ReorderLectures ''s1'' (ids_body [''l2'', ''l1'']))
             (Some teacher) (campus\<lparr> faults := [False, False, True] \<rparr>)))) \<and>
   fst (reorderLectures ''s1'' (ids_body [''l2'', ''l1'']) (Some teacher)
          (campus\<lparr> faults := [False, False, True] \<rparr>)) =
     ApiResponse_serverError ''Failed to reorder lectures'' \<and>
   map fst (issued (campus\<lparr> faults := [False, False, True] \<rparr>)
     (snd (reorderLectures ''s1'' (ids_body [''l2'', ''l1'']) (Some teacher)
             (campus\<lparr> faults := [False, False, True] \<rparr>)))) =
     [SectionFindById ''s1'', LectureFindByIdAndUpdate ''l2'' 0, LectureFindByIdAndUpdate ''l1'' 1] \<and>
   lecture_order lecture_two = 4 \<and>
   lectures (snd (reorderLectures ''s1'' (ids_body [''l2'', ''l1'']) (Some teacher)
                    (campus\<lparr> faults := [False, False, True] \<rparr>))) =
     [lecture_one, lecture_two\<lparr> lecture_order := 0 \<rparr>, lecture_three] \<and>
   stops_at_failure (issued (campus\<lparr> faults := [True] \<rparr>)
     (snd (controller (\<lambda>s. True) (DeleteLecture ''l1'') (Some teacher)
             (campus\<lparr> faults := [True] \<rparr>)))) \<and>
   status (fst (controller (\<lambda>s. True) (DeleteLecture ''l1'') (Some teacher)
                  (campus\<lparr> faults := [True] \<rparr>))) = ServerError"
proof -
  let ?w = "campus\<lparr> faults := [False, False, True] \<rparr>"
  have h: "find (\<lambda>s. section_id s = ''s1'') (sections ?w) = Some draft_section"
    "find (\<lambda>c. course_id c = section_course draft_section) (courses ?w) = Some draft_course"
    "\<not> rejects (faults ?w)"
    "True \<in> set (take (length [''l2'', ''l1'']) (tl (faults ?w)))"
    by (simp_all add: example_docs)
  have run: "lectures (snd (reorderLectures ''s1'' (ids_body [''l2'', ''l1'']) (Some teacher) ?w)) =
       [lecture_one, lecture_two\<lparr> lecture_order := 0 \<rparr>, lecture_three] \<and>
     issued ?w (snd (reorderLectures ''s1'' (ids_body [''l2'', ''l1'']) (Some teacher) ?w)) =
       [(SectionFindById ''s1'', Resolved), (LectureFindByIdAndUpdate ''l2'' 0, Resolved),
        (LectureFindByIdAndUpdate ''l1'' 1, Rejected)]"
    by (simp only: reorderLectures_run [OF example_bodies(3) h(1,2) campus_facts(7) h(3)])
      (simp add: Let_def issued_def example_docs)
  have del: "issued (campus\<lparr> faults := [True] \<rparr>)
       (snd (deleteLecture ''l1'' (Some teacher) (campus\<lparr> faults := [True] \<rparr>))) =
       [(LectureFindById ''l1'', Rejected)]"
    by (simp add: deleteLecture_def deleteLecture_try_def catch_error_def await_def
        Lecture_findById_def orm_def issued_def example_docs)
  show ?thesis
    using no_retry_no_rollback [where req = "ReorderLectures ''s1'' (ids_body [''l2'', ''l1''])"
        and isUrl = "\<lambda>s. True" and req_user = "Some teacher" and w = ?w
        and body = "ids_body [''l2'', ''l1'']" and lectureIds = "[''l2'', ''l1'']"
        and sectionId = "''s1''" and sec = draft_section and c = draft_course and u = teacher]
      no_retry_no_rollback [where req = "DeleteLecture ''l1''"
        and isUrl = "\<lambda>s. True" and req_user = "Some teacher" and w = "campus\<lparr> faults := [True] \<rparr>"]
      example_bodies(3) h campus_facts(7) run del
    by (simp add: lecture_two_def)
qed

section \<open>The envelopes a handler can send\<close>

lemma answers_ret: "r \<in> S \<Longrightarrow> answers S (ret r)"
  by (simp add: answers_def ret_def)

lemma answers_throw: "answers S (throw e)"
  by (simp add: answers_def throw_def)

lemma answers_await:
  assumes "\<And>x. answers S (k x)"
  shows "answers S (await m k)"
  unfolding answers_def
proof
  fix w
  obtain r w1 where mw: "m w = (r, w1)" by (cases "m w")
  show "case fst (await m k w) of Inl e \<Rightarrow> True | Inr r \<Rightarrow> r \<in> S"
  proof (cases r)
    case (Inl e)
    then show ?thesis by (simp add: await_def mw)
  next
    case (Inr x)
    from assms [of x] have "case fst (k x w1) of Inl e \<Rightarrow> True | Inr r \<Rightarrow> r \<in> S"
      by (simp add: answers_def)
    then show ?thesis by (simp add: await_def mw Inr)
  qed
qed

lemma answers_await_True: "\<forall>x. answers S (k x) \<Longrightarrow> answers S (await m k) = True"
  by (simp add: answers_await)

lemma answers_ret_iff: "answers S (ret r) = (r \<in> S)"
  by (simp add: answers_def ret_def)

lemma answers_throw_True: "answers S (throw e) = True"
  by (simp add: answers_throw)

lemma catch_error_answers:
  assumes "answers S m"
  shows "fst (catch_error msg m w) \<in> insert (ApiResponse_serverError msg) S"
proof -
  from assms have "case fst (m w) of Inl e \<Rightarrow> True | Inr r \<Rightarrow> r \<in> S"
    by (simp add: answers_def)
  then show ?thesis
    by (cases "m w") (auto simp: catch_error_def split: sum.splits)
qed

lemma catch_zod_error_answers:
  assumes "answers S m"
  shows "fst (catch_zod_error msg m w) \<in>
     insert (ApiResponse_serverError msg) (range (ApiResponse_badRequest ''Validation failed'') \<union> S)"
proof -
  from assms have "case fst (m w) of Inl e \<Rightarrow> True | Inr r \<Rightarrow> r \<in> S"
    by (simp add: answers_def)
  then show ?thesis
    by (cases "m w") (auto simp: catch_zod_error_def split: sum.splits exn.splits)
qed

lemma getSectionLectures_try_answers:
  "answers
     ({ApiResponse_notFound ''Section not found'', ApiResponse_forbidden ''Unauthorized access''} \<union>
      range (\<lambda>lectures. ApiResponse_success ''Lectures fetched successfully'' (PLectures lectures)))
     (getSectionLectures_try sectionId req_user)"
  by (simp add: getSectionLectures_try_def Let_def answers_await_True answers_ret_iff answers_throw_True
      split: option.splits sum.splits prod.splits)

lemma getSectionLectures_answers:
  "fst (getSectionLectures sectionId req_user w) \<in>
     insert (ApiResponse_serverError ''Failed to fetch lectures'')
     ({ApiResponse_notFound ''Section not found'', ApiResponse_forbidden ''Unauthorized access''} \<union>
      range (\<lambda>lectures. ApiResponse_success ''Lectures fetched successfully'' (PLectures lectures)))"
  unfolding getSectionLectures_def
  by (rule catch_error_answers [OF getSectionLectures_try_answers])

lemma getLecture_try_answers:
  "answers
     ({ApiResponse_notFound ''Lecture not found'',
       ApiResponse_forbidden ''You must be enrolled to access this lecture''} \<union>
      range (\<lambda>lecture. ApiResponse_success ''Lecture fetched successfully'' (PLecturePopulated lecture)))
     (getLecture_try id' req_user)"
  by (simp add: getLecture_try_def Let_def answers_await_True answers_ret_iff answers_throw_True
      split: option.splits sum.splits prod.splits)

lemma getLecture_answers:
  "fst (getLecture id' req_user w) \<in>
     insert (ApiResponse_serverError ''Failed to fetch lecture'')
     ({ApiResponse_notFound ''Lecture not found'',
       ApiResponse_forbidden ''You must be enrolled to access this lecture''} \<union>
      range (\<lambda>lecture. ApiResponse_success ''Lecture fetched successfully'' (PLecturePopulated lecture)))"
  unfolding getLecture_def
  by (rule catch_error_answers [OF getLecture_try_answers])

lemma createLecture_try_answers:
  "answers
     ({ApiResponse_notFound ''Section not found'',
       ApiResponse_forbidden ''Only the course instructor can create lectures''} \<union>
      range (\<lambda>lecture. ApiResponse_created ''Lecture created successfully'' (PLecture lecture)))
     (createLecture_try isUrl sectionId body req_user new_id)"
  by (simp add: createLecture_try_def Let_def answers_await_True answers_ret_iff answers_throw_True
      split: option.splits sum.splits prod.splits)

lemma createLecture_answers:
  "fst (createLecture isUrl sectionId body req_user new_id w) \<in>
     insert (ApiResponse_serverError ''Failed to create lecture'')
     (range (ApiResponse_badRequest ''Validation failed'') \<union>
      ({ApiResponse_notFound ''Section not found'',
       ApiResponse_forbidden ''Only the course instructor can create lectures''} \<union>
      range (\<lambda>lecture. ApiResponse_created ''Lecture created successfully'' (PLecture lecture))))"
  unfolding createLecture_def
  by (rule catch_zod_error_answers [OF createLecture_try_answers])

lemma updateLecture_try_answers:
  "answers
     ({ApiResponse_notFound ''Lecture not found'',
       ApiResponse_forbidden ''Only the course instructor can update lectures''} \<union>
      range (\<lambda>lecture. ApiResponse_success ''Lecture updated successfully'' (PLecturePopulated lecture)))
     (updateLecture_try isUrl id' body req_user)"
  by (simp add: updateLecture_try_def Let_def answers_await_True answers_ret_iff answers_throw_True
      split: option.splits sum.splits prod.splits)

lemma updateLecture_answers:
  "fst (updateLecture isUrl id' body req_user w) \<in>
     insert (ApiResponse_serverError ''Failed to update lecture'')
     (range (ApiResponse_badRequest ''Validation failed'') \<union>
      ({ApiResponse_notFound ''Lecture not found'',
       ApiResponse_forbidden ''Only the course instructor can update lectures''} \<union>
      range (\<lambda>lecture. ApiResponse_success ''Lecture updated successfully'' (PLecturePopulated lecture))))"
  unfolding updateLecture_def
  by (rule catch_zod_error_answers [OF updateLecture_try_answers])

lemma deleteLecture_try_answers:
  "answers
     ({ApiResponse_notFound ''Lecture not found'',
       ApiResponse_forbidden ''Only the course instructor can delete lectures'',
       ApiResponse_success ''Lecture deleted successfully'' NoData})
     (deleteLecture_try id' req_user)"
  by (simp add: deleteLecture_try_def Let_def answers_await_True answers_ret_iff answers_throw_True
      split: option.splits sum.splits prod.splits)

lemma deleteLecture_answers:
  "fst (deleteLecture id' req_user w) \<in>
     insert (ApiResponse_serverError ''Failed to delete lecture'')
     ({ApiResponse_notFound ''Lecture not found'',
       ApiResponse_forbidden ''Only the course instructor can delete lectures'',
       ApiResponse_success ''Lecture deleted successfully'' NoData})"
  unfolding deleteLecture_def
  by (rule catch_error_answers [OF deleteLecture_try_answers])

lemma reorderLectures_try_answers:
  "answers
     ({ApiResponse_notFound ''Section not found'',
       ApiResponse_forbidden ''Only the course instructor can reorder lectures''} \<union>
      range (\<lambda>lectures. ApiResponse_success ''Lectures reordered successfully'' (PLectures lectures)))
     (reorderLectures_try sectionId body req_user)"
  by (simp add: reorderLectures_try_def Let_def answers_await_True answers_ret_iff answers_throw_True
      split: option.splits sum.splits prod.splits)

lemma reorderLectures_answers:
  "fst (reorderLectures sectionId body req_user w) \<in>
     insert (ApiResponse_serverError ''Failed to reorder lectures'')
     (range (ApiResponse_badRequest ''Validation failed'') \<union>
      ({ApiResponse_notFound ''Section not found'',
       ApiResponse_forbidden ''Only the course instructor can reorder lectures''} \<union>
      range (\<lambda>lectures. ApiResponse_success ''Lectures reordered successfully'' (PLectures lectures))))"
  unfolding reorderLectures_def
  by (rule catch_zod_error_answers [OF reorderLectures_try_answers])

lemma getMyWishlist_try_answers:
  "answers
     (range (\<lambda>wishlist. ApiResponse_success ''Wishlist fetched successfully'' (PWishlist wishlist)))
     (getMyWishlist_try req_user)"
  by (simp add: getMyWishlist_try_def Let_def answers_await_True answers_ret_iff answers_throw_True
      split: option.splits sum.splits prod.splits)

lemma getMyWishlist_answers:
  "fst (getMyWishlist req_user w) \<in>
     insert (ApiResponse_serverError ''Failed to fetch wishlist'')
     (range (\<lambda>wishlist. ApiResponse_success ''Wishlist fetched successfully'' (PWishlist wishlist)))"
  unfolding getMyWishlist_def
  by (rule catch_error_answers [OF getMyWishlist_try_answers])

lemma addToWishlist_try_answers:
  "answers
     ({ApiResponse_notFound ''Course not found'', ApiResponse_conflict ''Course already in wishlist''} \<union>
      range (ApiResponse_created ''Course added to wishlist''))
     (addToWishlist_try body req_user new_id)"
  by (simp add: addToWishlist_try_def Let_def answers_await_True answers_ret_iff answers_throw_True
      split: option.splits sum.splits prod.splits)

lemma addToWishlist_answers:
  "fst (addToWishlist body req_user new_id w) \<in>
     insert (ApiResponse_serverError ''Failed to add to wishlist'')
     (range (ApiResponse_badRequest ''Validation failed'') \<union>
      ({ApiResponse_notFound ''Course not found'', ApiResponse_conflict ''Course already in wishlist''} \<union>
      range (ApiResponse_created ''Course added to wishlist'')))"
  unfolding addToWishlist_def
  by (rule catch_zod_error_answers [OF addToWishlist_try_answers])

lemma removeFromWishlist_try_answers:
  "answers
     ({ApiResponse_notFound ''Course not in wishlist'',
       ApiResponse_success ''Course removed from wishlist'' NoData})
     (removeFromWishlist_try courseId req_user)"
  by (simp add: removeFromWishlist_try_def Let_def answers_await_True answers_ret_iff answers_throw_True
      split: option.splits sum.splits prod.splits)

lemma removeFromWishlist_answers:
  "fst (removeFromWishlist courseId req_user w) \<in>
     insert (ApiResponse_serverError ''Failed to remove from wishlist'')
     ({ApiResponse_notFound ''Course not in wishlist'',
       ApiResponse_success ''Course removed from wishlist'' NoData})"
  unfolding removeFromWishlist_def
  by (rule catch_error_answers [OF removeFromWishlist_try_answers])

lemma checkWishlist_try_answers:
  "answers
     (range (\<lambda>isInWishlist. ApiResponse_success ''Wishlist status checked'' (PIsInWishlist isInWishlist)))
     (checkWishlist_try courseId req_user)"
  by (simp add: checkWishlist_try_def Let_def answers_await_True answers_ret_iff answers_throw_True
      split: option.splits sum.splits prod.splits)

lemma checkWishlist_answers:
  "fst (checkWishlist courseId req_user w) \<in>
     insert (ApiResponse_serverError ''Failed to check wishlist status'')
     (range (\<lambda>isInWishlist. ApiResponse_success ''Wishlist status checked'' (PIsInWishlist isInWishlist)))"
  unfolding checkWishlist_def
  by (rule catch_error_answers [OF checkWishlist_try_answers])

lemma clearWishlist_try_answers:
  "answers
     ({ApiResponse_success ''Wishlist is already empty'' NoData} \<union>
      range (\<lambda>count. ApiResponse_success
                        (''Wishlist cleared ('' @ show_nat count @ '' items removed)'') NoData))
     (clearWishlist_try req_user)"
  by (simp add: clearWishlist_try_def Let_def answers_await_True answers_ret_iff answers_throw_True
      split: option.splits sum.splits prod.splits)

lemma clearWishlist_answers:
  "fst (clearWishlist req_user w) \<in>
     insert (ApiResponse_serverError ''Failed to clear wishlist'')
     ({ApiResponse_success ''Wishlist is already empty'' NoData} \<union>
      range (\<lambda>count. ApiResponse_success
                        (''Wishlist cleared ('' @ show_nat count @ '' items removed)'') NoData))"
  unfolding clearWishlist_def
  by (rule catch_error_answers [OF clearWishlist_try_answers])

lemma show_nat_1: "show_nat (Suc 0) = ''1''"
  by (subst show_nat.simps) simp

text \<open>
  Claim C7. Whatever the request and the world, each of the eleven handlers of the
  lecture and wishlist controllers ends by sending one envelope built by a factory of
  \<open>ApiResponse\<close>: the server error of its \<open>catch\<close> block, the bad request with the
  validation issues (for the four handlers that validate a body), or one of the
  envelopes of its \<open>try\<close> block listed here: not found, forbidden, conflict, success or
  created, each with the message the handler gives it. No path of a handler ends
  otherwise.
\<close>

theorem uniform_envelope:
  "fst (getSectionLectures sectionId req_user w) \<in>
     insert (ApiResponse_serverError ''Failed to fetch lectures'')
     ({ApiResponse_notFound ''Section not found'', ApiResponse_forbidden ''Unauthorized access''} \<union>
      range (\<lambda>lectures. ApiResponse_success ''Lectures fetched successfully'' (PLectures lectures))) \<and>
   fst (getLecture id' req_user w) \<in>
     insert (ApiResponse_serverError ''Failed to fetch lecture'')
     ({ApiResponse_notFound ''Lecture not found'',
       ApiResponse_forbidden ''You must be enrolled to access this lecture''} \<union>
      range (\<lambda>lecture. ApiResponse_success ''Lecture fetched successfully'' (PLecturePopulated lecture))) \<and>
   fst (createLecture isUrl sectionId body req_user new_id w) \<in>
     insert (ApiResponse_serverError ''Failed to create lecture'')
     (range (ApiResponse_badRequest ''Validation failed'') \<union>
      ({ApiResponse_notFound ''Section not found'',
       ApiResponse_forbidden ''Only the course instructor can create lectures''} \<union>
      range (\<lambda>lecture. ApiResponse_created ''Lecture created successfully'' (PLecture lecture)))) \<and>
   fst (updateLecture isUrl id' body req_user w) \<in>
     insert (ApiResponse_serverError ''Failed to update lecture'')
     (range (ApiResponse_badRequest ''Validation failed'') \<union>
      ({ApiResponse_notFound ''Lecture not found'',
       ApiResponse_forbidden ''Only the course instructor can update lectures''} \<union>
      range (\<lambda>lecture. ApiResponse_success ''Lecture updated successfully'' (PLecturePopulated lecture)))) \<and>
   fst (deleteLecture id' req_user w) \<in>
     insert (ApiResponse_serverError ''Failed to delete lecture'')
     ({ApiResponse_notFound ''Lecture not found'',
       ApiResponse_forbidden ''Only the course instructor can delete lectures'',
       ApiResponse_success ''Lecture deleted successfully'' NoData}) \<and>
   fst (reorderLectures sectionId body req_user w) \<in>
     insert (ApiResponse_serverError ''Failed to reorder lectures'')
     (range (ApiResponse_badRequest ''Validation failed'') \<union>
      ({ApiResponse_notFound ''Section not found'',
       ApiResponse_forbidden ''Only the course instructor can reorder lectures''} \<union>
      range (\<lambda>lectures. ApiResponse_success ''Lectures reordered successfully'' (PLectures lectures)))) \<and>
   fst (getMyWishlist req_user w) \<in>
     insert (ApiResponse_serverError ''Failed to fetch wishlist'')
     (range (\<lambda>wishlist. ApiResponse_success ''Wishlist fetched successfully'' (PWishlist wishlist))) \<and>
   fst (addToWishlist body req_user new_id w) \<in>
     insert (ApiResponse_serverError ''Failed to add to wishlist'')
     (range (ApiResponse_badRequest ''Validation failed'') \<union>
      ({ApiResponse_notFound ''Course not found'', ApiResponse_conflict ''Course already in wishlist''} \<union>
      range (ApiResponse_created ''Course added to wishlist''))) \<and>
   fst (removeFromWishlist courseId req_user w) \<in>
     insert (ApiResponse_serverError ''Failed to remove from wishlist'')
     ({ApiResponse_notFound ''Course not in wishlist'',
       ApiResponse_success ''Course removed from wishlist'' NoData}) \<and>
   fst (checkWishlist courseId req_user w) \<in>
     insert (ApiResponse_serverError ''Failed to check wishlist status'')
     (range (\<lambda>isInWishlist. ApiResponse_success ''Wishlist status checked'' (PIsInWishlist isInWishlist))) \<and>
   fst (clearWishlist req_user w) \<in>
     insert (ApiResponse_serverError ''Failed to clear wishlist'')
     ({ApiResponse_success ''Wishlist is already empty'' NoData} \<union>
      range (\<lambda>count. ApiResponse_success
                        (''Wishlist cleared ('' @ show_nat count @ '' items removed)'') NoData))"
  by (intro conjI getSectionLectures_answers getLecture_answers createLecture_answers updateLecture_answers deleteLecture_answers reorderLectures_answers getMyWishlist_answers addToWishlist_answers removeFromWishlist_answers checkWishlist_answers clearWishlist_answers)

theorem uniform_envelope_witness:
  "fst (getSectionLectures ''s1'' None campus) = ApiResponse_forbidden ''Unauthorized access'' \<and>
   fst (getLecture ''l7'' None campus) = ApiResponse_notFound ''Lecture not found'' \<and>
   fst (deleteLecture ''l1'' (Some teacher) (campus\<lparr> faults := [True] \<rparr>)) =
     ApiResponse_serverError ''Failed to delete lecture'' \<and>
   fst (addToWishlist JNull (Some student) ''w9'' campus) =
     ApiResponse_badRequest ''Validation failed'' [ZIssue [] None] \<and>
   fst (addToWishlist (course_body ''c2'') (Some student) ''w9'' campus) =
     ApiResponse_conflict ''Course already in wishlist'' \<and>
   fst (clearWishlist (Some student) campus) =
     ApiResponse_success ''Wishlist cleared (1 items removed)'' NoData \<and>
   fst (clearWishlist None campus) = ApiResponse_serverError ''Failed to clear wishlist''"
proof -
  have evaluated:
    "fst (getSectionLectures ''s1'' None campus) = ApiResponse_forbidden ''Unauthorized access'' \<and>
     fst (getLecture ''l7'' None campus) = ApiResponse_notFound ''Lecture not found'' \<and>
     fst (deleteLecture ''l1'' (Some teacher) (campus\<lparr> faults := [True] \<rparr>)) =
       ApiResponse_serverError ''Failed to delete lecture'' \<and>
     fst (addToWishlist JNull (Some student) ''w9'' campus) =
       ApiResponse_badRequest ''Validation failed'' [ZIssue [] None] \<and>
     fst (addToWishlist (course_body ''c2'') (Some student) ''w9'' campus) =
       ApiResponse_conflict ''Course already in wishlist'' \<and>
     fst (clearWishlist (Some student) campus) =
       ApiResponse_success ''Wishlist cleared (1 items removed)'' NoData \<and>
     fst (clearWishlist None campus) = ApiResponse_serverError ''Failed to clear wishlist''"
    by (simp add: getSectionLectures_def getSectionLectures_try_def getLecture_def getLecture_try_def
        deleteLecture_def deleteLecture_try_def addToWishlist_def addToWishlist_try_def
        clearWishlist_def clearWishlist_try_def catch_error_def catch_zod_error_def
        await_def ret_def throw_def orm_calls orm_def addToWishlistSchema_def course_body_def
        field_def z_string_min_def show_nat_1 objectId_def hex_lower_def example_docs)
  show ?thesis
    using uniform_envelope [where sectionId = "''s1''" and req_user = None and w = campus
        and id' = "''l7''" and isUrl = "\<lambda>s. True" and body = JNull and new_id = "''w9''"
        and courseId = "''c2''"]
    by (rule_tac evaluated)
qed

section \<open>A course twice in a wishlist\<close>

lemma snd_catch_error [simp]: "snd (catch_error msg m w) = snd (m w)"
  by (simp add: catch_error_def split: prod.splits sum.splits)

lemma snd_catch_zod_error [simp]: "snd (catch_zod_error msg m w) = snd (m w)"
  by (simp add: catch_zod_error_def split: prod.splits sum.splits exn.splits)

lemma find_in_set: "find P xs = Some x \<Longrightarrow> x \<in> set xs \<and> P x"
  by (auto simp: find_Some_iff)

lemma find_Some_ex: "(\<exists>y. find P xs = Some y) = (\<exists>x \<in> set xs. P x)"
  by (cases "find P xs") (auto simp: find_None_iff dest: find_in_set)

text \<open>
  Claim C3 does not hold of the code. \<open>addToWishlist\<close> looks for the course and stores
  its id through the cast to an ObjectId, which reads hex digits of either case, but it
  tests whether the wishlist already has the course with \<open>includes\<close> on the string of
  the body. A request that spells a listed id with a capital hex digit therefore passes
  the test, is answered with created instead of the conflict, and leaves the id in the
  wishlist twice: here the student adds the course \<open>64b7f0c2a1d3e4f5a6b7637a\<close> and then
  the same course as \<open>64b7f0c2a1d3e4f5a6b7637A\<close>.
\<close>

theorem addToWishlist_second_spelling:
  "objectId ''64b7f0c2a1d3e4f5a6b7637A'' = ''64b7f0c2a1d3e4f5a6b7637a'' \<and>
   wishlists (serve (\<lambda>s. True) [(AddToWishlist (course_body ''64b7f0c2a1d3e4f5a6b7637a'') ''w9'', Some student)] shelf) =
     [\<lparr> wishlist_id = ''w9'', wishlist_user = ''student'',
        wishlist_courses = [''64b7f0c2a1d3e4f5a6b7637a''] \<rparr>] \<and>
   status (fst (addToWishlist (course_body ''64b7f0c2a1d3e4f5a6b7637A'') (Some student) ''w8''
     (serve (\<lambda>s. True) [(AddToWishlist (course_body ''64b7f0c2a1d3e4f5a6b7637a'') ''w9'', Some student)] shelf))) =
     Created \<and>
   wishlists (serve (\<lambda>s. True)
     [(AddToWishlist (course_body ''64b7f0c2a1d3e4f5a6b7637a'') ''w9'', Some student),
      (AddToWishlist (course_body ''64b7f0c2a1d3e4f5a6b7637A'') ''w8'', Some student)] shelf) =
     [\<lparr> wishlist_id = ''w9'', wishlist_user = ''student'',
        wishlist_courses = [''64b7f0c2a1d3e4f5a6b7637a'', ''64b7f0c2a1d3e4f5a6b7637a''] \<rparr>] \<and>
   \<not> distinct [''64b7f0c2a1d3e4f5a6b7637a'', ''64b7f0c2a1d3e4f5a6b7637a'']"
  by (simp add: addToWishlist_def addToWishlist_try_def catch_zod_error_def await_def ret_def
      Course_findById_def Wishlist_findOne_def Wishlist_findById_def Wishlist_create_def
      Wishlist_save_def orm_def addToWishlistSchema_def course_body_def field_def
      z_string_min_def populate_courses_def List.map_filter_def ApiResponse_created_def
      objectId_def hex_lower_def shelf_def hex_course_def example_docs)

section \<open>Which failure gives which answer\<close>























end
